theory Spec2Isabelle
  imports Main "HOL-Library.Char_ord" "HOL-Library.List_Lexorder"
begin

text \<open>
  A model of \<^verbatim>\<open>packages/tao/src/commands/run.ts\<close>, the \<^verbatim>\<open>run\<close> command of the nx command
  line: the parser of an invocation \<^verbatim>\<open><project>:<target>[:<configuration>]\<close> with its
  flags, the validation of the request against the workspace, and the dispatch to an
  executor, whose result becomes the exit code.
\<close>

section \<open>JavaScript values\<close>

text \<open>
  The option values that \<^verbatim>\<open>run.ts\<close> handles are typed \<^verbatim>\<open>any\<close>: the code tests them
  for truthiness, indexes them and calls \<^verbatim>\<open>split\<close> on them. They are modelled by a
  datatype of JavaScript values. \<open>JNum\<close> holds the integer-valued numbers (a fractional
  number takes the same branch as a non-zero integer everywhere in this file). \<open>JObj\<close>
  is a plain object, as an object literal or \<^verbatim>\<open>JSON.parse\<close> makes it: its own properties
  in the order \<^verbatim>\<open>Object.keys\<close> enumerates them, with distinct names, and
  \<^verbatim>\<open>Object.prototype\<close> as its prototype.
\<close>

datatype jsval =
    JUndefined
  | JNull
  | JBool bool
  | JNum int
  | JStr string
  | JArr "jsval list"
  | JObj "(string \<times> jsval) list"

text \<open>ToBoolean: what \<^verbatim>\<open>if (v)\<close> and \<^verbatim>\<open>!v\<close> test.\<close>

fun truthy :: "jsval \<Rightarrow> bool" where
  "truthy JUndefined = False"
| "truthy JNull = False"
| "truthy (JBool b) = b"
| "truthy (JNum n) = (n \<noteq> 0)"
| "truthy (JStr s) = (s \<noteq> [])"
| "truthy (JArr xs) = True"
| "truthy (JObj kvs) = True"

text \<open>
  An options object (\<^verbatim>\<open>Options\<close>, the result of minimist): a finite map from its own
  property names to values. Reading a missing property gives \<^verbatim>\<open>undefined\<close>. The names
  that \<^verbatim>\<open>run.ts\<close> reads from it (\<^verbatim>\<open>_\<close>, \<^verbatim>\<open>help\<close>, \<^verbatim>\<open>configuration\<close>, \<^verbatim>\<open>prod\<close>,
  \<^verbatim>\<open>project\<close>) are none of the names of \<^verbatim>\<open>Object.prototype\<close>, so an inherited property
  is never read from it.
\<close>

type_synonym obj = "string \<rightharpoonup> jsval"

definition getProp :: "obj \<Rightarrow> string \<Rightarrow> jsval" where
  "getProp ob k = (case ob k of None \<Rightarrow> JUndefined | Some v \<Rightarrow> v)"

text \<open>\<^verbatim>\<open>v[0]\<close> for a value \<open>v\<close> that is neither \<^verbatim>\<open>undefined\<close> nor \<^verbatim>\<open>null\<close>.\<close>

fun index0 :: "jsval \<Rightarrow> jsval" where
  "index0 (JArr []) = JUndefined"
| "index0 (JArr (x # xs)) = x"
| "index0 (JStr []) = JUndefined"
| "index0 (JStr (c # cs)) = JStr [c]"
| "index0 (JObj kvs) = (case map_of kvs ''0'' of None \<Rightarrow> JUndefined | Some v \<Rightarrow> v)"
| "index0 v = JUndefined"

text \<open>\<^verbatim>\<open>String.prototype.split(sep)\<close> for a one-character separator.\<close>

fun split :: "char \<Rightarrow> string \<Rightarrow> string list" where
  "split sep [] = [[]]"
| "split sep (c # cs) =
     (if c = sep then [] # split sep cs
      else (case split sep cs of [] \<Rightarrow> [[c]] | w # ws \<Rightarrow> (c # w) # ws))"

text \<open>Array destructuring \<^verbatim>\<open>[a, b, c] = parts\<close>: a position past the end is \<^verbatim>\<open>undefined\<close>.\<close>

definition element :: "string list \<Rightarrow> nat \<Rightarrow> jsval" where
  "element parts i = (if i < length parts then JStr (parts ! i) else JUndefined)"

text \<open>ToString, as template literals and property keys apply it.\<close>

fun digits :: "nat \<Rightarrow> string" where
  "digits n =
     (if n < 10 then [char_of (48 + n)]
      else digits (n div 10) @ [char_of (48 + n mod 10)])"

declare digits.simps [simp del]

fun join :: "string \<Rightarrow> string list \<Rightarrow> string" where
  "join sep [] = []"
| "join sep [x] = x"
| "join sep (x # y # ys) = x @ sep @ join sep (y # ys)"

fun toStr :: "jsval \<Rightarrow> string" where
  "toStr JUndefined = ''undefined''"
| "toStr JNull = ''null''"
| "toStr (JBool b) = (if b then ''true'' else ''false'')"
| "toStr (JNum n) = (if n < 0 then CHR ''-'' # digits (nat (- n)) else digits (nat n))"
| "toStr (JStr s) = s"
| "toStr (JArr xs) =
     join '','' (map (\<lambda>x. if x = JUndefined \<or> x = JNull then [] else toStr x) xs)"
| "toStr (JObj kvs) = ''[object Object]''"

text \<open>
  What a property read yields: a value, or a built-in object of the engine (a function
  such as \<^verbatim>\<open>Object.prototype.toString\<close>, or \<^verbatim>\<open>Object.prototype\<close> itself) that the
  prototype chain supplied under the name read. A built-in object is truthy.
\<close>

datatype member = Value jsval | Builtin string

fun truthyMember :: "member \<Rightarrow> bool" where
  "truthyMember (Value v) = truthy v"
| "truthyMember (Builtin b) = True"

text \<open>
  The property names of \<^verbatim>\<open>Object.prototype\<close>, which every object inherits: what
  \<^verbatim>\<open>Object.getOwnPropertyNames(Object.prototype)\<close> lists.
\<close>

definition objectPrototypeNames :: "string list" where
  "objectPrototypeNames =
     [''constructor'', ''__defineGetter__'', ''__defineSetter__'', ''hasOwnProperty'',
      ''__lookupGetter__'', ''__lookupSetter__'', ''isPrototypeOf'', ''propertyIsEnumerable'',
      ''toString'', ''valueOf'', ''__proto__'', ''toLocaleString'']"

text \<open>
  The own properties of a value: those of a plain object, and the \<^verbatim>\<open>length\<close> and the
  index properties of a string and of an array.
\<close>

fun ownProperty :: "jsval \<Rightarrow> string \<Rightarrow> jsval option" where
  "ownProperty (JObj kvs) k = map_of kvs k"
| "ownProperty (JStr s) k =
     (if k = ''length'' then Some (JNum (int (length s)))
      else map_of (map (\<lambda>i. (digits i, JStr [s ! i])) [0..<length s]) k)"
| "ownProperty (JArr xs) k =
     (if k = ''length'' then Some (JNum (int (length xs)))
      else map_of (zip (map digits [0..<length xs]) xs) k)"
| "ownProperty v k = None"

fun isPlainObject :: "member \<Rightarrow> bool" where
  "isPlainObject (Value (JObj kvs)) = True"
| "isPlainObject m = False"

text \<open>
  \<^verbatim>\<open>Object.keys(m)\<close> for a value that is neither \<^verbatim>\<open>undefined\<close> nor \<^verbatim>\<open>null\<close>: the own
  enumerable property names. A number, a boolean and a built-in object have none.
\<close>

fun objectKeys :: "member \<Rightarrow> string list" where
  "objectKeys (Value (JObj kvs)) = map fst kvs"
| "objectKeys (Value (JStr s)) = map digits [0..<length s]"
| "objectKeys (Value (JArr xs)) = map digits [0..<length xs]"
| "objectKeys m = []"

section \<open>Errors\<close>

text \<open>
  Every \<^verbatim>\<open>throw\<close> of the file is a constructor carrying what the message is built
  from. A call of a missing method and a property read on \<^verbatim>\<open>undefined\<close> or \<^verbatim>\<open>null\<close>
  raise a \<^verbatim>\<open>TypeError\<close>, which carries the expression called or the name read.
  \<open>External\<close> stands for whatever a collaborator or an executor throws.
\<close>

datatype typeError = NotAFunction string | PropertyOfUndefined string

datatype error =
    InvalidInvocation
  | ProjectNotFound jsval
  | TargetNotFound jsval jsval "string list"
  | ConfigurationNotFound jsval jsval jsval "string list"
  | NoConfigurationsDefined jsval jsval jsval
  | TypeError typeError
  | External string

text \<open>
  The message of an \<^verbatim>\<open>Error\<close> that the file itself constructs; the first argument is
  \<^verbatim>\<open>chalk.bold\<close>. The text of a \<^verbatim>\<open>TypeError\<close> is the engine's and the text of an
  external error is its thrower's: for them the result is \<open>None\<close>.
\<close>

fun errorMessage :: "(string \<Rightarrow> string) \<Rightarrow> error \<Rightarrow> string option" where
  "errorMessage bold InvalidInvocation =
     Some ''Specify the project name and the target (e.g., nx run proj:build)''"
| "errorMessage bold (ProjectNotFound p) =
     Some (''Could not find project '' @ [CHR 0x22] @ toStr p @ [CHR 0x22])"
| "errorMessage bold (TargetNotFound t p availableTargets) =
     Some (''Could not find target '' @ [CHR 0x22] @ toStr t @ [CHR 0x22] @ '' in the '' @ toStr p
       @ '' project. Valid targets are: '' @ bold (join '', '' availableTargets))"
| "errorMessage bold (ConfigurationNotFound c p t names) =
     Some (''Could not find configuration '' @ [CHR 0x22] @ toStr c @ [CHR 0x22] @ '' in ''
       @ toStr p @ '':'' @ toStr t @ ''. Valid configurations are: '' @ join '', '' names)"
| "errorMessage bold (NoConfigurationsDefined c p t) =
     Some (''No configurations are defined for '' @ toStr p @ '':'' @ toStr t @ '', so ''
       @ [CHR 0x22] @ toStr c @ [CHR 0x22] @ '' is invalid.'')"
| "errorMessage bold (TypeError e) = None"
| "errorMessage bold (External m) = None"

section \<open>Run options and the workspace\<close>

text \<open>
  \<^verbatim>\<open>interface RunOptions\<close>. The casts \<^verbatim>\<open>as string\<close> and \<^verbatim>\<open>as boolean\<close> do nothing at
  run time, so the fields hold JavaScript values; \<open>configuration\<close> is \<^verbatim>\<open>undefined\<close>
  when none was given. \<open>runOptions\<close> has type \<open>'o\<close>: a reference into the store for the
  object \<^verbatim>\<open>parseRunOpts\<close> returns, the combined options object in the copy that is
  handed to the legacy bridge.
\<close>

record 'o RunOptions =
  project :: jsval
  target :: jsval
  configuration :: jsval
  helpFlag :: jsval
  runOptions :: 'o

text \<open>
  The workspace configuration is the content of a JSON file: a value of type \<open>jsval\<close>,
  of which \<^verbatim>\<open>run.ts\<close> reads \<^verbatim>\<open>projects\<close>, of a project \<^verbatim>\<open>targets\<close>, of a target
  \<^verbatim>\<open>configurations\<close> and \<^verbatim>\<open>executor\<close>. The interfaces that type it are erased at run
  time, so nothing is assumed of its shape: every read is a property read on whatever
  value is there.
\<close>

text \<open>\<^verbatim>\<open>interface TargetContext\<close>, lines 133 to 138: what a native executor is called with.\<close>

record TargetContext =
  context_root :: string
  context_target :: member
  context_workspace :: jsval
  context_projectName :: jsval

section \<open>Executor results\<close>

record outcome =
  success :: bool

text \<open>
  An async iterator of outcomes: the outcomes it still has to yield, in arrival order,
  and the error it throws after them, if any. An executor returns a promise, which
  resolves to an outcome or rejects, or such an iterator.
\<close>

datatype asyncIterator = AsyncIterator "outcome list" "error option"

datatype executorResult = Promise "error + outcome" | Iterator asyncIterator

section \<open>The store, the log and the collaborators\<close>

text \<open>
  What the code does beyond returning a value: it allocates and mutates the options
  object (\<open>heap\<close>, a reference is an index), and it calls the logger, the help printer,
  the executor and the legacy bridge (\<open>events\<close>, oldest first).
\<close>

datatype 's event =
    LoggerDebug string
  | PrintHelp string 's
  | ImplementationCalled obj TargetContext
  | ScheduleTargetCalled string "obj RunOptions" bool

record 's world =
  heap :: "obj list"
  events :: "'s event list"

definition alloc :: "obj \<Rightarrow> 's world \<Rightarrow> nat \<times> 's world" where
  "alloc ob w = (length (heap w), w\<lparr>heap := heap w @ [ob]\<rparr>)"

definition deleteProp :: "nat \<Rightarrow> string \<Rightarrow> 's world \<Rightarrow> 's world" where
  "deleteProp r k w = w\<lparr>heap := (heap w)[r := (heap w ! r)(k := None)]\<rparr>"

definition emit :: "'s event \<Rightarrow> 's world \<Rightarrow> 's world" where
  "emit ev w = w\<lparr>events := events w @ [ev]\<rparr>"

text \<open>The second argument of \<^verbatim>\<open>minimist\<close>.\<close>

record minimistOpts =
  boolean_keys :: "string list"
  string_keys :: "string list"
  alias_table :: "(string \<times> string) list"

text \<open>
  The functions \<^verbatim>\<open>run.ts\<close> imports, as parameters: none of them is among the
  sources. \<open>'s\<close> is the type of an executor's option schema. \<open>scheduleTarget\<close> stands for
  the import of the adapter, its \<^verbatim>\<open>scheduleTarget\<close> and \<^verbatim>\<open>eachValueFrom\<close>, which turns the
  observable into an async iterator. Each of them may throw where its result is a sum.
  \<open>inherits\<close> is the engine's part of a property read on a value that is not a plain
  object: whether the prototypes of strings, arrays, numbers and booleans, or a built-in
  object itself, have a property of that name.
\<close>

record 's env =
  minimist :: "string list \<Rightarrow> minimistOpts \<Rightarrow> obj"
  convertToCamelCase :: "obj \<Rightarrow> obj"
  chalk_bold :: "string \<Rightarrow> string"
  readWorkspaceConfiguration :: "error + jsval"
  calculateDefaultProjectName :: "string \<Rightarrow> jsval \<Rightarrow> string option"
  readExecutor ::
    "jsval \<Rightarrow> jsval \<Rightarrow> error + ('s \<times> (obj \<Rightarrow> TargetContext \<Rightarrow> error + executorResult))"
  isNxExecutor :: "jsval \<Rightarrow> jsval \<Rightarrow> bool"
  relativeCwd :: "string \<Rightarrow> string"
  combineOptionsForExecutor ::
    "obj \<Rightarrow> jsval \<Rightarrow> member \<Rightarrow> 's \<Rightarrow> string option \<Rightarrow> string \<Rightarrow> error + obj"
  scheduleTarget :: "string \<Rightarrow> obj RunOptions \<Rightarrow> bool \<Rightarrow> error + asyncIterator"
  handleErrors :: "bool \<Rightarrow> (error + int) \<times> 's world \<Rightarrow> int \<times> 's world"
  inherits :: "member \<Rightarrow> string \<Rightarrow> bool"

section \<open>Property reads\<close>

text \<open>
  \<^verbatim>\<open>m[k]\<close> and \<^verbatim>\<open>m.k\<close>. A read on \<^verbatim>\<open>undefined\<close> or \<^verbatim>\<open>null\<close> raises a \<^verbatim>\<open>TypeError\<close>. On any
  other value the own property of that name is the result; without one, the prototype
  chain is searched, which for a plain object is \<^verbatim>\<open>Object.prototype\<close> alone and for every
  other value ends there; a name found nowhere gives \<^verbatim>\<open>undefined\<close>.
\<close>

definition getProperty :: "'s env \<Rightarrow> member \<Rightarrow> string \<Rightarrow> error + member" where
  "getProperty env m k =
     (if m = Value JUndefined \<or> m = Value JNull then Inl (TypeError (PropertyOfUndefined k))
      else (case (case m of Value v \<Rightarrow> ownProperty v k | Builtin b \<Rightarrow> None) of
              Some x \<Rightarrow> Inr (Value x)
            | None \<Rightarrow>
                if k \<in> set objectPrototypeNames \<or> (\<not> isPlainObject m \<and> inherits env m k)
                then Inr (Builtin k)
                else Inr (Value JUndefined)))"

section \<open>parseRunOpts\<close>

definition throwInvalidInvocation :: "error + 'a" where
  "throwInvalidInvocation = Inl InvalidInvocation"

text \<open>Lines 39 to 47: the options object that minimist and the conversion produce.\<close>

definition parsedArgs :: "'s env \<Rightarrow> string list \<Rightarrow> obj" where
  "parsedArgs env args =
     convertToCamelCase env
       (minimist env args
          \<lparr>boolean_keys = [''help'', ''prod''],
           string_keys = [''configuration'', ''project''],
           alias_table = [(''c'', ''configuration'')]\<rparr>)"

text \<open>
  \<^verbatim>\<open>defaultProjectName\<close> is \<^verbatim>\<open>string | null\<close>: \<open>None\<close> is \<^verbatim>\<open>null\<close>, and the empty string
  is falsy too. \<^verbatim>\<open>res\<close> holds a reference to the options object, not a copy, so the six
  \<^verbatim>\<open>delete\<close>s that follow its construction are seen through \<open>runOptions res\<close>.
\<close>

definition parseRunOpts ::
  "'s env \<Rightarrow> string \<Rightarrow> string list \<Rightarrow> string option \<Rightarrow> 's world
     \<Rightarrow> (error + nat RunOptions) \<times> 's world" where
  "parseRunOpts env cwd args defaultProjectName w =
     (let (r, w1) = alloc (parsedArgs env args) w;
          ro = heap w1 ! r;
          h = getProp ro ''help''
      in if \<not> truthy (getProp ro ''_'') \<or> \<not> truthy (index0 (getProp ro ''_''))
         then (throwInvalidInvocation, w1)
         else (case index0 (getProp ro ''_'') of
             JStr s \<Rightarrow>
               (let parts = split CHR '':'' s;
                    project0 = element parts 0;
                    target0 = element parts 1;
                    configuration0 = element parts 2;
                    (project1, w2) =
                       (case defaultProjectName of
                          None \<Rightarrow> (project0, w1)
                        | Some d \<Rightarrow>
                            if \<not> truthy project0 \<and> d \<noteq> []
                            then (JStr d,
                                  emit (LoggerDebug
                                    (''No project name specified. Using default project : ''
                                       @ chalk_bold env d)) w1)
                            else (project0, w1));
                    configuration1 = (if truthy (getProp ro ''configuration'')
                                      then getProp ro ''configuration'' else configuration0);
                    configuration2 = (if truthy (getProp ro ''prod'')
                                      then JStr ''production'' else configuration1);
                    project2 = (if truthy (getProp ro ''project'')
                                then getProp ro ''project'' else project1)
                in if \<not> truthy project2 \<or> \<not> truthy target0
                   then (throwInvalidInvocation, w2)
                   else (let res = \<lparr>project = project2, target = target0,
                                     configuration = configuration2, helpFlag = h,
                                     runOptions = r\<rparr>;
                             w3 = deleteProp r ''help'' w2;
                             w4 = deleteProp r ''_'' w3;
                             w5 = deleteProp r ''c'' w4;
                             w6 = deleteProp r ''configuration'' w5;
                             w7 = deleteProp r ''prod'' w6;
                             w8 = deleteProp r ''project'' w7
                         in (Inr res, w8)))
           | _ \<Rightarrow> (Inl (TypeError (NotAFunction ''runOptions._[0].split'')), w1)))"

section \<open>printRunHelp and validateTargetAndConfiguration\<close>

text \<open>\<^verbatim>\<open>printHelp\<close> is a collaborator: its call is recorded with its two arguments.\<close>

definition printRunHelp :: "'o RunOptions \<Rightarrow> 's \<Rightarrow> 's world \<Rightarrow> 's world" where
  "printRunHelp opts schema w =
     emit (PrintHelp (''nx run '' @ toStr (project opts) @ '':'' @ toStr (target opts)) schema) w"


text \<open>
  Lines 97 to 130. Every test is a test of truthiness of what the property read gave:
  \<^verbatim>\<open>!project\<close>, \<^verbatim>\<open>!target\<close>, \<^verbatim>\<open>target.configurations\<close>, \<^verbatim>\<open>!configuration\<close>. The option
  values are converted to property keys by ToString.
\<close>

definition validateTargetAndConfiguration ::
  "'s env \<Rightarrow> jsval \<Rightarrow> 'o RunOptions \<Rightarrow> error + unit" where
  "validateTargetAndConfiguration env workspace opts =
     (case getProperty env (Value workspace) ''projects'' of
        Inl e \<Rightarrow> Inl e
      | Inr allProjects \<Rightarrow>
     (case getProperty env allProjects (toStr (project opts)) of
        Inl e \<Rightarrow> Inl e
      | Inr proj \<Rightarrow>
          if \<not> truthyMember proj then Inl (ProjectNotFound (project opts))
          else
     (case getProperty env proj ''targets'' of
        Inl e \<Rightarrow> Inl e
      | Inr allTargets \<Rightarrow>
     (case getProperty env allTargets (toStr (target opts)) of
        Inl e \<Rightarrow> Inl e
      | Inr tgt \<Rightarrow>
          (let availableTargets = objectKeys allTargets
           in if \<not> truthyMember tgt
              then Inl (TargetNotFound (target opts) (project opts) availableTargets)
              else if truthy (configuration opts)
              then (case getProperty env tgt ''configurations'' of
                      Inl e \<Rightarrow> Inl e
                    | Inr allConfigurations \<Rightarrow>
                        if truthyMember allConfigurations
                        then (case getProperty env allConfigurations
                                     (toStr (configuration opts)) of
                                Inl e \<Rightarrow> Inl e
                              | Inr c \<Rightarrow>
                                  if \<not> truthyMember c
                                  then Inl (ConfigurationNotFound (configuration opts)
                                              (project opts) (target opts)
                                              (objectKeys allConfigurations))
                                  else Inr ())
                        else Inl (NoConfigurationsDefined (configuration opts) (project opts)
                                    (target opts)))
              else Inr ())))))"

section \<open>iteratorToProcessStatusCode\<close>

text \<open>
  \<^verbatim>\<open>for await (r of i) {}\<close>: each round takes the next outcome from the iterator and
  assigns it to \<open>r\<close>, until the iterator is done or throws. The function returns the
  last value of \<open>r\<close> (\<open>None\<close> is \<^verbatim>\<open>undefined\<close>) and the iterator as the loop leaves it.
\<close>

fun pending :: "asyncIterator \<Rightarrow> nat" where
  "pending (AsyncIterator xs e) = length xs"

function forAwait ::
  "outcome option \<Rightarrow> asyncIterator \<Rightarrow> (error + outcome option) \<times> asyncIterator" where
  "forAwait r (AsyncIterator [] None) = (Inr r, AsyncIterator [] None)"
| "forAwait r (AsyncIterator [] (Some e)) = (Inl e, AsyncIterator [] None)"
| "forAwait r (AsyncIterator (x # xs) e) = forAwait (Some x) (AsyncIterator xs e)"
  by pat_completeness auto
termination
  by (relation "measure (\<lambda>(r, i). pending i)") auto

definition iteratorToProcessStatusCode :: "asyncIterator \<Rightarrow> error + int" where
  "iteratorToProcessStatusCode i =
     (case fst (forAwait None i) of
        Inl e \<Rightarrow> Inl e
      | Inr None \<Rightarrow> Inl (TypeError (PropertyOfUndefined ''success''))
      | Inr (Some r) \<Rightarrow> Inr (if success r then 0 else 1))"

section \<open>run\<close>

text \<open>
  Lines 185 to 210, the dispatch: a native executor is called and its promise or
  iterator is turned into an exit code (\<^verbatim>\<open>isPromise\<close> tells the two shapes apart, here
  the two constructors); any other executor goes to the legacy bridge with a copy of
  \<open>opts\<close> whose \<open>runOptions\<close> are the combined options.
\<close>

definition dispatch ::
  "'s env \<Rightarrow> string \<Rightarrow> bool \<Rightarrow> jsval \<Rightarrow> nat RunOptions \<Rightarrow> member
     \<Rightarrow> jsval \<Rightarrow> jsval \<Rightarrow> (obj \<Rightarrow> TargetContext \<Rightarrow> error + executorResult) \<Rightarrow> obj
     \<Rightarrow> 's world \<Rightarrow> (error + int) \<times> 's world" where
  "dispatch env root isVerbose workspace opts tgt nodeModule executorName implementation
       combinedOptions w =
     (if isNxExecutor env nodeModule executorName
      then (let ctx = \<lparr>context_root = root, context_target = tgt,
                       context_workspace = workspace, context_projectName = project opts\<rparr>;
                w1 = emit (ImplementationCalled combinedOptions ctx) w
            in case implementation combinedOptions ctx of
                 Inl e \<Rightarrow> (Inl e, w1)
               | Inr (Promise (Inl e)) \<Rightarrow> (Inl e, w1)
               | Inr (Promise (Inr v)) \<Rightarrow> (Inr (if success v then 0 else 1), w1)
               | Inr (Iterator i) \<Rightarrow> (iteratorToProcessStatusCode i, w1))
      else (let opts' = \<lparr>project = project opts, target = target opts,
                         configuration = configuration opts, helpFlag = helpFlag opts,
                         runOptions = combinedOptions\<rparr>;
                w1 = emit (ScheduleTargetCalled root opts' isVerbose) w
            in case scheduleTarget env root opts' isVerbose of
                 Inl e \<Rightarrow> (Inl e, w1)
               | Inr i \<Rightarrow> (iteratorToProcessStatusCode i, w1)))"

text \<open>Line 169: \<^verbatim>\<open>workspace.projects[opts.project].targets[opts.target]\<close>, four property reads.\<close>

definition targetOf :: "'s env \<Rightarrow> jsval \<Rightarrow> 'o RunOptions \<Rightarrow> error + member" where
  "targetOf env workspace opts =
     (case getProperty env (Value workspace) ''projects'' of
        Inl e \<Rightarrow> Inl e
      | Inr allProjects \<Rightarrow>
          (case getProperty env allProjects (toStr (project opts)) of
             Inl e \<Rightarrow> Inl e
           | Inr proj \<Rightarrow>
               (case getProperty env proj ''targets'' of
                  Inl e \<Rightarrow> Inl e
                | Inr allTargets \<Rightarrow> getProperty env allTargets (toStr (target opts)))))"

text \<open>
  Line 170: \<^verbatim>\<open>[nodeModule, executor] = target.executor.split(':')\<close>. Only a string has a
  \<^verbatim>\<open>split\<close> method: on \<^verbatim>\<open>undefined\<close> and \<^verbatim>\<open>null\<close> the read of \<^verbatim>\<open>split\<close> raises a
  \<^verbatim>\<open>TypeError\<close>, on any other value the call does.
\<close>

definition executorParts :: "'s env \<Rightarrow> member \<Rightarrow> error + jsval \<times> jsval" where
  "executorParts env tgt =
     (case getProperty env tgt ''executor'' of
        Inl e \<Rightarrow> Inl e
      | Inr (Value (JStr s)) \<Rightarrow>
          Inr (element (split CHR '':'' s) 0, element (split CHR '':'' s) 1)
      | Inr (Value JUndefined) \<Rightarrow> Inl (TypeError (PropertyOfUndefined ''split''))
      | Inr (Value JNull) \<Rightarrow> Inl (TypeError (PropertyOfUndefined ''split''))
      | Inr x \<Rightarrow> Inl (TypeError (NotAFunction ''target.executor.split'')))"

text \<open>The closure that \<^verbatim>\<open>run\<close> passes to \<^verbatim>\<open>handleErrors\<close>, lines 164 to 210.\<close>

definition runBody ::
  "'s env \<Rightarrow> string \<Rightarrow> string \<Rightarrow> string list \<Rightarrow> bool \<Rightarrow> 's world \<Rightarrow> (error + int) \<times> 's world" where
  "runBody env cwd root args isVerbose w =
     (case readWorkspaceConfiguration env of
        Inl e \<Rightarrow> (Inl e, w)
      | Inr workspace \<Rightarrow>
          (let defaultProjectName = calculateDefaultProjectName env cwd workspace
           in case parseRunOpts env cwd args defaultProjectName w of
                (Inl e, w1) \<Rightarrow> (Inl e, w1)
              | (Inr opts, w1) \<Rightarrow>
                  (case validateTargetAndConfiguration env workspace opts of
                     Inl e \<Rightarrow> (Inl e, w1)
                   | Inr u \<Rightarrow>
                       (case targetOf env workspace opts of
                          Inl e \<Rightarrow> (Inl e, w1)
                        | Inr tgt \<Rightarrow>
                            (case executorParts env tgt of
                               Inl e \<Rightarrow> (Inl e, w1)
                             | Inr (nodeModule, executorName) \<Rightarrow>
                                 (case readExecutor env nodeModule executorName of
                                    Inl e \<Rightarrow> (Inl e, w1)
                                  | Inr (schema, implementation) \<Rightarrow>
                                      (case combineOptionsForExecutor env
                                              (heap w1 ! runOptions opts) (configuration opts)
                                              tgt schema defaultProjectName
                                              (relativeCwd env cwd) of
                                         Inl e \<Rightarrow> (Inl e, w1)
                                       | Inr combinedOptions \<Rightarrow>
                                           if truthy (helpFlag opts)
                                           then (Inr 0, printRunHelp opts schema w1)
                                           else dispatch env root isVerbose workspace opts
                                                  tgt nodeModule executorName implementation
                                                  combinedOptions w1)))))))"

text \<open>
  \<^verbatim>\<open>run\<close> hands the closure to \<^verbatim>\<open>handleErrors\<close>, the top-level error boundary: the
  handler receives what the closure returns or throws, with the store and the log as the
  closure leaves them. The \<^verbatim>\<open>Workspaces\<close> object of line 161 is not modelled: its methods
  are the collaborators.
\<close>

definition run :: "'s env \<Rightarrow> string \<Rightarrow> string \<Rightarrow> string list \<Rightarrow> bool \<Rightarrow> 's world \<Rightarrow> int \<times> 's world" where
  "run env cwd root args isVerbose w =
     handleErrors env isVerbose (runBody env cwd root args isVerbose w)"

section \<open>Notions of the specification\<close>

text \<open>
  The keys that the specification calls recognized: \<^verbatim>\<open>help\<close>, the holder of the
  positional arguments, \<^verbatim>\<open>c\<close>, \<^verbatim>\<open>configuration\<close>, \<^verbatim>\<open>prod\<close> and \<^verbatim>\<open>project\<close>.
\<close>

definition recognizedKeys :: "string set" where
  "recognizedKeys = {''help'', ''_'', ''c'', ''configuration'', ''prod'', ''project''}"

text \<open>The events that invoke an executor: the native call and the legacy bridge.\<close>

fun isInvocation :: "'s event \<Rightarrow> bool" where
  "isInvocation (ImplementationCalled co ctx) = True"
| "isInvocation (ScheduleTargetCalled root opts vb) = True"
| "isInvocation ev = False"

text \<open>
  The specification's \<^verbatim>\<open>ConfigurationNotFoundError\<close> has two variants, "not found" and
  "none defined".
\<close>

fun isConfigurationNotFound :: "error + unit \<Rightarrow> bool" where
  "isConfigurationNotFound (Inl (ConfigurationNotFound c p t names)) = True"
| "isConfigurationNotFound (Inl (NoConfigurationsDefined c p t)) = True"
| "isConfigurationNotFound r = False"

text \<open>
  The specification's reading of the invocation, written from its words and not from
  the code. The positional token is the first positional argument; it is split on
  \<^verbatim>\<open>:\<close> into project, target and configuration. The default project name is used when
  no project segment was present and a default was supplied; the \<^verbatim>\<open>project\<close> flag
  overrides both.
\<close>

definition positionalToken :: "obj \<Rightarrow> jsval" where
  "positionalToken ro = index0 (getProp ro ''_'')"

fun segments :: "jsval \<Rightarrow> string list" where
  "segments (JStr s) = split CHR '':'' s"
| "segments v = []"

definition resolvedProjectName :: "obj \<Rightarrow> string option \<Rightarrow> jsval" where
  "resolvedProjectName ro d =
     (let segment = element (segments (positionalToken ro)) 0;
          withDefault = (case d of
                           None \<Rightarrow> segment
                         | Some dn \<Rightarrow> if \<not> truthy segment \<and> dn \<noteq> [] then JStr dn else segment)
      in if truthy (getProp ro ''project'') then getProp ro ''project'' else withDefault)"

definition resolvedTargetName :: "obj \<Rightarrow> jsval" where
  "resolvedTargetName ro = element (segments (positionalToken ro)) 1"

text \<open>
  A positional argument is a token of the argument list, a string; \<open>stringOrFalsy\<close>
  holds of a string and of the values that stand for no argument.
\<close>

fun stringOrFalsy :: "jsval \<Rightarrow> bool" where
  "stringOrFalsy (JStr s) = True"
| "stringOrFalsy v = (\<not> truthy v)"

text \<open>What two runs of the parser are compared on: the error, or the project and the configuration.\<close>

definition projectAndConfiguration :: "error + 'o RunOptions \<Rightarrow> error + jsval \<times> jsval" where
  "projectAndConfiguration r =
     (case r of Inl e \<Rightarrow> Inl e | Inr res \<Rightarrow> Inr (project res, configuration res))"

section \<open>Example inputs\<close>

text \<open>
  A workspace with one project, \<^verbatim>\<open>proj\<close>, whose targets are declared in the order
  \<^verbatim>\<open>test\<close>, \<^verbatim>\<open>build\<close>; \<^verbatim>\<open>build\<close> has the configurations \<^verbatim>\<open>production\<close> and \<^verbatim>\<open>staging\<close>,
  \<^verbatim>\<open>test\<close> has none.
\<close>

definition exampleTest :: jsval where
  "exampleTest = JObj [(''executor'', JStr ''@nrwl/jest:jest'')]"

definition exampleConfigurations :: "(string \<times> jsval) list" where
  "exampleConfigurations = [(''production'', JObj []), (''staging'', JObj [])]"

definition exampleBuild :: jsval where
  "exampleBuild = JObj [(''executor'', JStr ''@nrwl/web:build''),
                        (''configurations'', JObj exampleConfigurations)]"

definition exampleTargets :: "(string \<times> jsval) list" where
  "exampleTargets = [(''test'', exampleTest), (''build'', exampleBuild)]"

definition exampleProject :: jsval where
  "exampleProject = JObj [(''root'', JStr ''apps/proj''), (''targets'', JObj exampleTargets)]"

definition exampleWorkspace :: jsval where
  "exampleWorkspace = JObj [(''version'', JNum 2), (''projects'', JObj [(''proj'', exampleProject)])]"

text \<open>The same project with a \<^verbatim>\<open>build\<close> target whose configuration \<^verbatim>\<open>dev\<close> is \<^verbatim>\<open>null\<close>.\<close>

definition exampleNullWorkspace :: jsval where
  "exampleNullWorkspace =
     JObj [(''version'', JNum 2),
           (''projects'',
            JObj [(''proj'',
                   JObj [(''root'', JStr ''apps/proj''),
                         (''targets'',
                          JObj [(''build'',
                                 JObj [(''executor'', JStr ''@nrwl/web:build''),
                                       (''configurations'',
                                        JObj [(''production'', JObj []),
                                              (''dev'', JNull)])])])])])]"

text \<open>
  Collaborators for the examples: minimist returns the object \<open>parsed\<close>, the executor
  is native or not and returns \<open>result\<close>, the bridge returns the same iterator, and the
  handler passes an exit code on and answers an error with the non-zero exit code 1.
  \<open>inherits\<close> answers no: the examples read properties of plain objects, for which it
  is not asked, and of the built-in function \<^verbatim>\<open>toString\<close> the name \<^verbatim>\<open>executor\<close>, which
  that function does not have.
\<close>

definition exampleEnv :: "obj \<Rightarrow> bool \<Rightarrow> error + executorResult \<Rightarrow> unit env" where
  "exampleEnv parsed native result =
     \<lparr>minimist = (\<lambda>args mo. parsed),
      convertToCamelCase = (\<lambda>ob. ob),
      chalk_bold = (\<lambda>s. s),
      readWorkspaceConfiguration = Inr exampleWorkspace,
      calculateDefaultProjectName = (\<lambda>cwd ws. None),
      readExecutor = (\<lambda>m x. Inr ((), \<lambda>co ctx. result)),
      isNxExecutor = (\<lambda>m x. native),
      relativeCwd = (\<lambda>cwd. cwd),
      combineOptionsForExecutor = (\<lambda>ro c t s d r. Inr ro),
      scheduleTarget = (\<lambda>root opts v. case result of
                                         Inr (Iterator i) \<Rightarrow> Inr i
                                       | Inr (Promise p) \<Rightarrow> Inl (External ''bridge'')
                                       | Inl e \<Rightarrow> Inl e),
      handleErrors = (\<lambda>v r. (case fst r of Inl e \<Rightarrow> 1 | Inr code \<Rightarrow> code, snd r)),
      inherits = (\<lambda>m k. False)\<rparr>"




definition exampleOpts :: "nat RunOptions" where
  "exampleOpts = \<lparr>project = JStr ''proj'', target = JStr ''build'', configuration = JUndefined,
                  helpFlag = JBool False, runOptions = 0\<rparr>"

definition exampleLint :: "nat RunOptions" where
  "exampleLint = \<lparr>project = JStr ''proj'', target = JStr ''lint'', configuration = JUndefined,
                  helpFlag = JBool False, runOptions = 0\<rparr>"

definition emptyWorld :: "unit world" where
  "emptyWorld = \<lparr>heap = [], events = []\<rparr>"

definition exampleSequence :: "outcome list" where
  "exampleSequence = [\<lparr>success = True\<rparr>, \<lparr>success = True\<rparr>, \<lparr>success = False\<rparr>]"

text \<open>\<^verbatim>\<open>proj:build --prod --configuration=staging --watch\<close>\<close>

definition exampleParsed :: obj where
  "exampleParsed = [''_'' \<mapsto> JArr [JStr ''proj:build''], ''help'' \<mapsto> JBool False,
                    ''prod'' \<mapsto> JBool True, ''configuration'' \<mapsto> JStr ''staging'',
                    ''c'' \<mapsto> JStr ''staging'', ''watch'' \<mapsto> JBool True]"

text \<open>\<^verbatim>\<open>proj:build --help\<close>\<close>

definition exampleParsedHelp :: obj where
  "exampleParsedHelp = [''_'' \<mapsto> JArr [JStr ''proj:build''], ''help'' \<mapsto> JBool True,
                        ''prod'' \<mapsto> JBool False]"

text \<open>\<^verbatim>\<open>proj:build\<close>\<close>

definition exampleParsedPlain :: obj where
  "exampleParsedPlain = [''_'' \<mapsto> JArr [JStr ''proj:build''], ''help'' \<mapsto> JBool False,
                         ''prod'' \<mapsto> JBool False]"

text \<open>No positional argument.\<close>

definition exampleParsedNone :: obj where
  "exampleParsedNone = [''_'' \<mapsto> JArr [], ''help'' \<mapsto> JBool False, ''prod'' \<mapsto> JBool False]"

text \<open>\<^verbatim>\<open>proj:build:prod\<close>\<close>

definition exampleParsedThree :: obj where
  "exampleParsedThree = [''_'' \<mapsto> JArr [JStr ''proj:build:prod''], ''help'' \<mapsto> JBool False,
                         ''prod'' \<mapsto> JBool False]"

text \<open>\<^verbatim>\<open>proj:build:dev --configuration= --project=\<close>\<close>

definition exampleParsedEmptyFlags :: obj where
  "exampleParsedEmptyFlags = [''_'' \<mapsto> JArr [JStr ''proj:build:dev''], ''help'' \<mapsto> JBool False,
                         ''prod'' \<mapsto> JBool False, ''configuration'' \<mapsto> JStr [],
                         ''c'' \<mapsto> JStr [], ''project'' \<mapsto> JStr []]"

text \<open>Requests for a configuration that the target does not have.\<close>

definition exampleUnknownConfiguration :: "nat RunOptions" where
  "exampleUnknownConfiguration =
     \<lparr>project = JStr ''proj'', target = JStr ''build'', configuration = JStr ''x'',
      helpFlag = JBool False, runOptions = 0\<rparr>"

definition exampleNoConfigurations :: "nat RunOptions" where
  "exampleNoConfigurations =
     \<lparr>project = JStr ''proj'', target = JStr ''test'', configuration = JStr ''production'',
      helpFlag = JBool False, runOptions = 0\<rparr>"

text \<open>\<^verbatim>\<open>123\<close>: minimist delivers a numeric token as a number.\<close>

definition exampleParsedNumeric :: obj where
  "exampleParsedNumeric = [''_'' \<mapsto> JArr [JNum 123], ''help'' \<mapsto> JBool False,
                           ''prod'' \<mapsto> JBool False]"

text \<open>
  Requests that name a property of \<^verbatim>\<open>Object.prototype\<close>: as configuration of
  \<^verbatim>\<open>proj:build\<close>, and as target of \<^verbatim>\<open>proj\<close>. And a request for the configuration that is
  \<^verbatim>\<open>null\<close>.
\<close>

definition exampleInheritedConfiguration :: "nat RunOptions" where
  "exampleInheritedConfiguration =
     \<lparr>project = JStr ''proj'', target = JStr ''build'', configuration = JStr ''constructor'',
      helpFlag = JBool False, runOptions = 0\<rparr>"

definition exampleInheritedTarget :: "nat RunOptions" where
  "exampleInheritedTarget =
     \<lparr>project = JStr ''proj'', target = JStr ''toString'', configuration = JUndefined,
      helpFlag = JBool False, runOptions = 0\<rparr>"

definition exampleNullConfiguration :: "nat RunOptions" where
  "exampleNullConfiguration =
     \<lparr>project = JStr ''proj'', target = JStr ''build'', configuration = JStr ''dev'',
      helpFlag = JBool False, runOptions = 0\<rparr>"

text \<open>\<^verbatim>\<open>proj:toString\<close>\<close>

definition exampleParsedInherited :: obj where
  "exampleParsedInherited = [''_'' \<mapsto> JArr [JStr ''proj:toString''], ''help'' \<mapsto> JBool False,
                             ''prod'' \<mapsto> JBool False]"

section \<open>Lemmas\<close>

subsection \<open>The loop\<close>

lemma forAwait_prefix:
  "forAwait r (AsyncIterator (xs @ ys) e) =
     forAwait (if xs = [] then r else Some (last xs)) (AsyncIterator ys e)"
  by (induction xs arbitrary: r) auto

lemma forAwait_all:
  "forAwait r (AsyncIterator xs None) =
     (Inr (if xs = [] then r else Some (last xs)), AsyncIterator [] None)"
  using forAwait_prefix [of r xs "[]" None] by simp

lemma status_nonempty:
  "xs \<noteq> [] \<Longrightarrow>
     iteratorToProcessStatusCode (AsyncIterator xs None) = Inr (if success (last xs) then 0 else 1)"
  by (simp add: iteratorToProcessStatusCode_def forAwait_all)

lemma status_empty:
  "iteratorToProcessStatusCode (AsyncIterator [] None)
     = Inl (TypeError (PropertyOfUndefined ''success''))"
  by (simp add: iteratorToProcessStatusCode_def)

subsection \<open>Splitting\<close>

lemma split_nonempty: "split sep s \<noteq> []"
  by (induction s) (auto split: list.splits)

lemma split_no_sep: "sep \<notin> set s \<Longrightarrow> split sep s = [s]"
  by (induction s) auto

lemma split_append: "sep \<notin> set p \<Longrightarrow> split sep (p @ sep # rest) = p # split sep rest"
  by (induction p) (auto simp add: split_nonempty split: list.splits)

lemma split_two:
  "CHR '':'' \<notin> set p \<Longrightarrow> CHR '':'' \<notin> set t \<Longrightarrow> split CHR '':'' (p @ '':'' @ t) = [p, t]"
  by (simp add: split_append split_no_sep)

lemma split_three:
  "CHR '':'' \<notin> set p \<Longrightarrow> CHR '':'' \<notin> set t \<Longrightarrow> CHR '':'' \<notin> set c
     \<Longrightarrow> split CHR '':'' (p @ '':'' @ t @ '':'' @ c) = [p, t, c]"
  by (simp add: split_append split_no_sep)

lemma index0_falsy: "\<not> truthy v \<Longrightarrow> \<not> truthy (index0 v)"
  by (cases v) auto

lemma element_string: "truthy (element parts i) \<Longrightarrow> \<exists>t. element parts i = JStr t \<and> t \<noteq> []"
  by (simp add: element_def split: if_splits)

subsection \<open>The result of parseRunOpts\<close>

lemma parse_fst:
  "fst (parseRunOpts env cwd args d w) =
     (let ro = parsedArgs env args; tok = index0 (getProp ro ''_'')
      in if \<not> truthy (getProp ro ''_'') \<or> \<not> truthy tok then Inl InvalidInvocation
         else (case tok of
            JStr s \<Rightarrow>
              (let parts = split CHR '':'' s;
                   p1 = (case d of None \<Rightarrow> element parts 0
                         | Some dn \<Rightarrow> if \<not> truthy (element parts 0) \<and> dn \<noteq> [] then JStr dn
                                     else element parts 0);
                   c1 = (if truthy (getProp ro ''configuration'')
                         then getProp ro ''configuration'' else element parts 2);
                   c2 = (if truthy (getProp ro ''prod'') then JStr ''production'' else c1);
                   p2 = (if truthy (getProp ro ''project'') then getProp ro ''project'' else p1)
               in if \<not> truthy p2 \<or> \<not> truthy (element parts 1) then Inl InvalidInvocation
                  else Inr \<lparr>project = p2, target = element parts 1, configuration = c2,
                            helpFlag = getProp ro ''help'', runOptions = length (heap w)\<rparr>)
          | _ \<Rightarrow> Inl (TypeError (NotAFunction ''runOptions._[0].split''))))"
  by (simp add: parseRunOpts_def alloc_def Let_def throwInvalidInvocation_def
           split: jsval.splits option.splits prod.splits)

lemma non_string_token_raises:
  assumes "truthy (positionalToken (parsedArgs env args))"
    and "\<not> stringOrFalsy (positionalToken (parsedArgs env args))"
  shows "fst (parseRunOpts env cwd args d w)
           = Inl (TypeError (NotAFunction ''runOptions._[0].split''))"
proof -
  have "truthy (getProp (parsedArgs env args) ''_'')"
    using assms(1) index0_falsy unfolding positionalToken_def by blast
  then show ?thesis
    using assms unfolding positionalToken_def
    by (cases "index0 (getProp (parsedArgs env args) ''_'')") (simp_all add: parse_fst Let_def)
qed

lemma parse_projectAndConfiguration:
  "projectAndConfiguration (fst (parseRunOpts env cwd args d w)) =
     (let ro = parsedArgs env args; tok = index0 (getProp ro ''_'')
      in if \<not> truthy (getProp ro ''_'') \<or> \<not> truthy tok then Inl InvalidInvocation
         else (case tok of
            JStr s \<Rightarrow>
              (let parts = split CHR '':'' s;
                   p1 = (case d of None \<Rightarrow> element parts 0
                         | Some dn \<Rightarrow> if \<not> truthy (element parts 0) \<and> dn \<noteq> [] then JStr dn
                                     else element parts 0);
                   c1 = (if truthy (getProp ro ''configuration'')
                         then getProp ro ''configuration'' else element parts 2);
                   c2 = (if truthy (getProp ro ''prod'') then JStr ''production'' else c1);
                   p2 = (if truthy (getProp ro ''project'') then getProp ro ''project'' else p1)
               in if \<not> truthy p2 \<or> \<not> truthy (element parts 1) then Inl InvalidInvocation
                  else Inr (p2, c2))
          | _ \<Rightarrow> Inl (TypeError (NotAFunction ''runOptions._[0].split''))))"
  by (simp add: parse_fst Let_def projectAndConfiguration_def split: jsval.splits)

lemma heap_emit: "heap (emit ev w) = heap w"
  by (simp add: emit_def)

lemma events_deleteProp: "events (deleteProp r k w) = events w"
  by (simp add: deleteProp_def)

lemma heap_deleteProp: "heap (deleteProp r k w) = (heap w)[r := (heap w ! r)(k := None)]"
  by (simp add: deleteProp_def)

lemma parse_heap:
  "heap (snd (parseRunOpts env cwd args d w)) =
     heap w @ [case fst (parseRunOpts env cwd args d w) of
                 Inl e \<Rightarrow> parsedArgs env args
               | Inr res \<Rightarrow> (parsedArgs env args)
                    (''help'' := None, ''_'' := None, ''c'' := None, ''configuration'' := None,
                     ''prod'' := None, ''project'' := None)]"
  by (simp add: parseRunOpts_def alloc_def Let_def throwInvalidInvocation_def split_def
        heap_emit heap_deleteProp split: jsval.splits option.splits)

lemma parse_events:
  "events (snd (parseRunOpts env cwd args d w)) = events w
   \<or> (\<exists>m. events (snd (parseRunOpts env cwd args d w)) = events w @ [LoggerDebug m])"
  by (simp add: parseRunOpts_def alloc_def Let_def throwInvalidInvocation_def split_def
        emit_def events_deleteProp split: jsval.splits option.splits)

lemma parse_events_None:
  "events (snd (parseRunOpts env cwd args None w)) = events w"
  by (simp add: parseRunOpts_def alloc_def Let_def throwInvalidInvocation_def split_def
        emit_def events_deleteProp split: jsval.splits)

lemma parse_invocations:
  "filter isInvocation (events (snd (parseRunOpts env cwd args d w)))
     = filter isInvocation (events w)"
  using parse_events [of env cwd args d w] by auto

lemma parse_agree:
  assumes "getProp (parsedArgs env args) ''_'' = getProp (parsedArgs env' args') ''_''"
    and "getProp (parsedArgs env args) ''prod'' = getProp (parsedArgs env' args') ''prod''"
    and "truthy (getProp (parsedArgs env args) ''project'')
         \<or> truthy (getProp (parsedArgs env' args') ''project'')
         \<Longrightarrow> getProp (parsedArgs env args) ''project'' = getProp (parsedArgs env' args') ''project''"
    and "truthy (getProp (parsedArgs env args) ''configuration'')
         \<or> truthy (getProp (parsedArgs env' args') ''configuration'')
         \<Longrightarrow> getProp (parsedArgs env args) ''configuration''
             = getProp (parsedArgs env' args') ''configuration''"
  shows "projectAndConfiguration (fst (parseRunOpts env cwd args d w))
       = projectAndConfiguration (fst (parseRunOpts env' cwd' args' d w'))"
proof -
  have p: "(truthy (getProp (parsedArgs env args) ''project'')
            \<and> getProp (parsedArgs env args) ''project'' = getProp (parsedArgs env' args') ''project'')
         \<or> (\<not> truthy (getProp (parsedArgs env args) ''project'')
            \<and> \<not> truthy (getProp (parsedArgs env' args') ''project''))"
    using assms(3) by metis
  have c: "(truthy (getProp (parsedArgs env args) ''configuration'')
            \<and> getProp (parsedArgs env args) ''configuration''
                = getProp (parsedArgs env' args') ''configuration'')
         \<or> (\<not> truthy (getProp (parsedArgs env args) ''configuration'')
            \<and> \<not> truthy (getProp (parsedArgs env' args') ''configuration''))"
    using assms(4) by metis
  from p c show ?thesis
  proof (elim disjE conjE)
    assume "truthy (getProp (parsedArgs env args) ''project'')"
      "getProp (parsedArgs env args) ''project'' = getProp (parsedArgs env' args') ''project''"
      "truthy (getProp (parsedArgs env args) ''configuration'')"
      "getProp (parsedArgs env args) ''configuration''
                = getProp (parsedArgs env' args') ''configuration''"
    then show ?thesis
      using assms(1,2)
      by (simp add: parse_projectAndConfiguration Let_def split: jsval.splits)
  next
    assume "truthy (getProp (parsedArgs env args) ''project'')"
      "getProp (parsedArgs env args) ''project'' = getProp (parsedArgs env' args') ''project''"
      "\<not> truthy (getProp (parsedArgs env args) ''configuration'')"
      "\<not> truthy (getProp (parsedArgs env' args') ''configuration'')"
    then show ?thesis
      using assms(1,2)
      by (simp add: parse_projectAndConfiguration Let_def split: jsval.splits)
  next
    assume "\<not> truthy (getProp (parsedArgs env args) ''project'')"
      "\<not> truthy (getProp (parsedArgs env' args') ''project'')"
      "truthy (getProp (parsedArgs env args) ''configuration'')"
      "getProp (parsedArgs env args) ''configuration''
                = getProp (parsedArgs env' args') ''configuration''"
    then show ?thesis
      using assms(1,2)
      by (simp add: parse_projectAndConfiguration Let_def split: jsval.splits)
  next
    assume "\<not> truthy (getProp (parsedArgs env args) ''project'')"
      "\<not> truthy (getProp (parsedArgs env' args') ''project'')"
      "\<not> truthy (getProp (parsedArgs env args) ''configuration'')"
      "\<not> truthy (getProp (parsedArgs env' args') ''configuration'')"
    then show ?thesis
      using assms(1,2)
      by (simp add: parse_projectAndConfiguration Let_def split: jsval.splits)
  qed
qed

text \<open>
  For a positional argument that is a string, or for none, the parser throws the
  invalid-invocation error exactly when the token, the resolved project name or the
  resolved target name is missing or empty, and returns a request otherwise.
\<close>

lemma invalid_invocation_string_token:
  assumes "stringOrFalsy (positionalToken (parsedArgs env args))"
  shows "(fst (parseRunOpts env cwd args d w) = Inl InvalidInvocation)
           = (\<not> truthy (positionalToken (parsedArgs env args))
              \<or> \<not> truthy (resolvedProjectName (parsedArgs env args) d)
              \<or> \<not> truthy (resolvedTargetName (parsedArgs env args)))
       \<and> (fst (parseRunOpts env cwd args d w) = Inl InvalidInvocation
           \<or> (\<exists>res t. fst (parseRunOpts env cwd args d w) = Inr res
                      \<and> project res = resolvedProjectName (parsedArgs env args) d
                      \<and> target res = resolvedTargetName (parsedArgs env args)
                      \<and> target res = JStr t \<and> t \<noteq> []
                      \<and> truthy (project res) \<and> truthy (target res)))"
proof (cases "truthy (positionalToken (parsedArgs env args))")
  case False
  then show ?thesis
    by (simp add: parse_fst Let_def positionalToken_def)
next
  case True
  then obtain s where s: "positionalToken (parsedArgs env args) = JStr s"
    using assms by (cases "positionalToken (parsedArgs env args)") auto
  have h: "truthy (getProp (parsedArgs env args) ''_'')"
    using True index0_falsy unfolding positionalToken_def by blast
  show ?thesis
    using s h True element_string [of "split CHR '':'' s" 1]
    unfolding positionalToken_def resolvedProjectName_def resolvedTargetName_def
    by (cases d) (auto simp add: parse_fst Let_def)
qed

lemma invalid_invocation_examples:
  "stringOrFalsy (positionalToken (parsedArgs (exampleEnv exampleParsedNone True (Inl (External ''none''))) []))
   \<and> fst (parseRunOpts (exampleEnv exampleParsedNone True (Inl (External ''none''))) ''/ws'' []
            None emptyWorld) = Inl InvalidInvocation
   \<and> stringOrFalsy (positionalToken (parsedArgs (exampleEnv exampleParsedPlain True (Inl (External ''none'')))
            [''proj:build'']))
   \<and> fst (parseRunOpts (exampleEnv exampleParsedPlain True (Inl (External ''none''))) ''/ws''
            [''proj:build''] None emptyWorld) \<noteq> Inl InvalidInvocation
   \<and> resolvedProjectName (parsedArgs (exampleEnv exampleParsedPlain True (Inl (External ''none'')))
            [''proj:build'']) None = JStr ''proj''
   \<and> resolvedTargetName (parsedArgs (exampleEnv exampleParsedPlain True (Inl (External ''none'')))
            [''proj:build'']) = JStr ''build''"
proof -
  let ?E = "exampleEnv exampleParsedNone True (Inl (External ''none''))"
  let ?F = "exampleEnv exampleParsedPlain True (Inl (External ''none''))"
  have pa: "parsedArgs ?E [] = exampleParsedNone" "parsedArgs ?F [''proj:build''] = exampleParsedPlain"
    by (simp_all add: parsedArgs_def exampleEnv_def)
  have t: "positionalToken exampleParsedNone = JUndefined"
    "positionalToken exampleParsedPlain = JStr ''proj:build''"
    by (simp_all add: positionalToken_def getProp_def exampleParsedNone_def exampleParsedPlain_def)
  have a: "stringOrFalsy (positionalToken (parsedArgs ?E []))"
    and b: "stringOrFalsy (positionalToken (parsedArgs ?F [''proj:build'']))"
    by (simp_all add: pa t)
  have g: "getProp exampleParsedPlain ''project'' = JUndefined"
    by (simp add: getProp_def exampleParsedPlain_def)
  have r: "resolvedProjectName exampleParsedPlain None = JStr ''proj''"
    "resolvedTargetName exampleParsedPlain = JStr ''build''"
    by (simp_all add: resolvedProjectName_def resolvedTargetName_def t g element_def Let_def)
  from invalid_invocation_string_token [OF a, of "''/ws''" None emptyWorld]
    invalid_invocation_string_token [OF b, of "''/ws''" None emptyWorld] a b
  show ?thesis
    by (simp add: pa t r)
qed


subsection \<open>Property reads on plain objects\<close>

lemma getProperty_object:
  "getProperty env (Value (JObj kvs)) k =
     Inr (case map_of kvs k of
            Some v \<Rightarrow> Value v
          | None \<Rightarrow> if k \<in> set objectPrototypeNames then Builtin k else Value JUndefined)"
  by (simp add: getProperty_def split: option.splits)

lemma getProperty_truthy: "truthyMember m \<Longrightarrow> \<exists>x. getProperty env m k = Inr x"
  by (cases m) (auto simp add: getProperty_def split: option.splits)

lemma example_reads:
  "getProperty env (Value exampleWorkspace) ''projects'' = Inr (Value (JObj [(''proj'', exampleProject)]))"
  "getProperty env (Value (JObj [(''proj'', exampleProject)])) ''proj'' = Inr (Value exampleProject)"
  "getProperty env (Value exampleProject) ''targets'' = Inr (Value (JObj exampleTargets))"
  "getProperty env (Value (JObj exampleTargets)) ''build'' = Inr (Value exampleBuild)"
  "getProperty env (Value (JObj exampleTargets)) ''test'' = Inr (Value exampleTest)"
  "getProperty env (Value (JObj exampleTargets)) ''lint'' = Inr (Value JUndefined)"
  "getProperty env (Value (JObj exampleTargets)) ''toString'' = Inr (Builtin ''toString'')"
  "getProperty env (Value exampleBuild) ''configurations'' = Inr (Value (JObj exampleConfigurations))"
  "getProperty env (Value exampleTest) ''configurations'' = Inr (Value JUndefined)"
  "getProperty env (Value exampleBuild) ''executor'' = Inr (Value (JStr ''@nrwl/web:build''))"
  "getProperty env (Value (JObj exampleConfigurations)) ''production'' = Inr (Value (JObj []))"
  "getProperty env (Value (JObj exampleConfigurations)) ''x'' = Inr (Value JUndefined)"
  "getProperty env (Value (JObj exampleConfigurations)) ''constructor'' = Inr (Builtin ''constructor'')"
  by (simp_all add: getProperty_object exampleWorkspace_def exampleProject_def exampleTargets_def
        exampleBuild_def exampleTest_def exampleConfigurations_def objectPrototypeNames_def)

lemma example_truthy:
  "truthy exampleProject" "truthy exampleBuild" "truthy exampleTest"
  by (simp_all add: exampleProject_def exampleBuild_def exampleTest_def)

lemma example_targetOf:
  "targetOf env exampleWorkspace exampleOpts = Inr (Value exampleBuild)"
  "targetOf env exampleWorkspace exampleInheritedConfiguration = Inr (Value exampleBuild)"
  "targetOf env exampleWorkspace exampleInheritedTarget = Inr (Builtin ''toString'')"
  "targetOf env exampleWorkspace exampleLint = Inr (Value JUndefined)"
  by (simp_all add: targetOf_def example_reads exampleOpts_def exampleInheritedConfiguration_def
        exampleInheritedTarget_def exampleLint_def)

lemma example_validate:
  "validateTargetAndConfiguration env exampleWorkspace exampleOpts = Inr ()"
  "validateTargetAndConfiguration env exampleWorkspace exampleInheritedTarget = Inr ()"
  by (simp_all add: validateTargetAndConfiguration_def example_reads example_truthy
        exampleOpts_def exampleInheritedTarget_def)

lemma example_executorParts:
  "executorParts env (Value exampleBuild) = Inr (JStr ''@nrwl/web'', JStr ''build'')"
  by (simp add: executorParts_def example_reads element_def)

lemma example_executorParts_builtin:
  "executorParts (exampleEnv parsed native result) (Builtin ''toString'')
     = Inl (TypeError (PropertyOfUndefined ''split''))"
  by (simp add: executorParts_def getProperty_def objectPrototypeNames_def exampleEnv_def)

text \<open>A project whose read gives a falsy value is reported as not found.\<close>

lemma project_not_found:
  assumes "getProperty env (Value ws) ''projects'' = Inr allProjects"
    and "getProperty env allProjects (toStr (project opts)) = Inr proj"
    and "\<not> truthyMember proj"
  shows "validateTargetAndConfiguration env ws opts = Inl (ProjectNotFound (project opts))"
  using assms by (simp add: validateTargetAndConfiguration_def)

text \<open>
  Where the configuration check does what the specification says: for a request whose
  project and target exist, a target without \<^verbatim>\<open>configurations\<close> rejects every configuration
  name that is set, and a target whose \<^verbatim>\<open>configurations\<close> are a plain object with truthy
  values rejects exactly the names that are not among its keys, as long as the name is
  none of those that \<^verbatim>\<open>Object.prototype\<close> supplies.
\<close>

lemma configuration_check_own_names:
  assumes "getProperty env (Value ws) ''projects'' = Inr allProjects"
    and "getProperty env allProjects (toStr (project opts)) = Inr proj"
    and "truthyMember proj"
    and "getProperty env proj ''targets'' = Inr allTargets"
    and "getProperty env allTargets (toStr (target opts)) = Inr tgt"
    and "truthyMember tgt"
  shows "getProperty env tgt ''configurations'' = Inr (Value JUndefined) \<Longrightarrow>
           validateTargetAndConfiguration env ws opts
             = (if truthy (configuration opts)
                then Inl (NoConfigurationsDefined (configuration opts) (project opts) (target opts))
                else Inr ())"
    and "getProperty env tgt ''configurations'' = Inr (Value (JObj cs)) \<Longrightarrow>
         toStr (configuration opts) \<notin> set objectPrototypeNames \<Longrightarrow>
         \<forall>v \<in> snd ` set cs. truthy v \<Longrightarrow>
           validateTargetAndConfiguration env ws opts
             = (if truthy (configuration opts) \<and> map_of cs (toStr (configuration opts)) = None
                then Inl (ConfigurationNotFound (configuration opts) (project opts) (target opts)
                            (map fst cs))
                else Inr ())"
proof -
  show "getProperty env tgt ''configurations'' = Inr (Value JUndefined) \<Longrightarrow>
           validateTargetAndConfiguration env ws opts
             = (if truthy (configuration opts)
                then Inl (NoConfigurationsDefined (configuration opts) (project opts) (target opts))
                else Inr ())"
    using assms by (simp add: validateTargetAndConfiguration_def Let_def)
next
  assume c: "getProperty env tgt ''configurations'' = Inr (Value (JObj cs))"
    and n: "toStr (configuration opts) \<notin> set objectPrototypeNames"
    and t: "\<forall>v \<in> snd ` set cs. truthy v"
  have "\<And>v. map_of cs (toStr (configuration opts)) = Some v \<Longrightarrow> truthy v"
  proof -
    fix v
    assume "map_of cs (toStr (configuration opts)) = Some v"
    then have "(toStr (configuration opts), v) \<in> set cs"
      by (rule map_of_SomeD)
    then have "v \<in> snd ` set cs"
      by force
    then show "truthy v"
      using t by blast
  qed
  then show "validateTargetAndConfiguration env ws opts
             = (if truthy (configuration opts) \<and> map_of cs (toStr (configuration opts)) = None
                then Inl (ConfigurationNotFound (configuration opts) (project opts) (target opts)
                            (map fst cs))
                else Inr ())"
    using assms c n
    by (auto simp add: validateTargetAndConfiguration_def Let_def getProperty_object
          split: option.splits)
qed

lemma configuration_check_examples:
  "validateTargetAndConfiguration env exampleWorkspace exampleUnknownConfiguration
     = Inl (ConfigurationNotFound (JStr ''x'') (JStr ''proj'') (JStr ''build'')
              [''production'', ''staging''])"
  "validateTargetAndConfiguration env exampleWorkspace exampleNoConfigurations
     = Inl (NoConfigurationsDefined (JStr ''production'') (JStr ''proj'') (JStr ''test''))"
proof -
  have k: "map fst exampleConfigurations = [''production'', ''staging'']"
    by (simp add: exampleConfigurations_def)
  show "validateTargetAndConfiguration env exampleWorkspace exampleUnknownConfiguration
     = Inl (ConfigurationNotFound (JStr ''x'') (JStr ''proj'') (JStr ''build'')
              [''production'', ''staging''])"
    by (simp add: validateTargetAndConfiguration_def example_reads example_truthy k
          exampleUnknownConfiguration_def)
  show "validateTargetAndConfiguration env exampleWorkspace exampleNoConfigurations
     = Inl (NoConfigurationsDefined (JStr ''production'') (JStr ''proj'') (JStr ''test''))"
    by (simp add: validateTargetAndConfiguration_def example_reads example_truthy
          exampleNoConfigurations_def)
qed

subsection \<open>The stages of the run\<close>

text \<open>When every step before the help test succeeds, the closure is the help branch or the dispatch.\<close>

lemma runBody_stages:
  assumes "readWorkspaceConfiguration env = Inr ws"
    and "parseRunOpts env cwd args (calculateDefaultProjectName env cwd ws) w = (Inr opts, w1)"
    and "validateTargetAndConfiguration env ws opts = Inr ()"
    and "targetOf env ws opts = Inr tgt"
    and "executorParts env tgt = Inr (nm, ex)"
    and "readExecutor env nm ex = Inr (schema, impl)"
    and "combineOptionsForExecutor env (heap w1 ! runOptions opts) (configuration opts) tgt schema
           (calculateDefaultProjectName env cwd ws) (relativeCwd env cwd) = Inr co"
  shows "runBody env cwd root args vb w =
           (if truthy (helpFlag opts) then (Inr 0, printRunHelp opts schema w1)
            else dispatch env root vb ws opts tgt nm ex impl co w1)"
  using assms by (simp add: runBody_def Let_def)

lemma runBody_help_events:
  assumes "readWorkspaceConfiguration env = Inr ws"
    and "parseRunOpts env cwd args (calculateDefaultProjectName env cwd ws) w = (Inr opts, w1)"
    and "truthy (helpFlag opts)"
  shows "filter isInvocation (events (snd (runBody env cwd root args vb w)))
           = filter isInvocation (events w)"
proof -
  have w1: "filter isInvocation (events w1) = filter isInvocation (events w)"
    using parse_invocations [of env cwd args "calculateDefaultProjectName env cwd ws" w] assms(2)
    by simp
  have "snd (runBody env cwd root args vb w) = w1
        \<or> (\<exists>schema. snd (runBody env cwd root args vb w) = printRunHelp opts schema w1)"
    using assms
    by (auto simp add: runBody_def Let_def split: sum.splits option.splits prod.splits)
  then show ?thesis
    using w1 by (auto simp add: printRunHelp_def emit_def)
qed

text \<open>
  A target name that \<^verbatim>\<open>Object.prototype\<close> supplies passes the validation, and the run
  goes on to line 170, where the read of \<^verbatim>\<open>split\<close> on the missing \<^verbatim>\<open>executor\<close> raises a
  \<^verbatim>\<open>TypeError\<close>.
\<close>

lemma inherited_target_reaches_executor:
  "fst (runBody (exampleEnv exampleParsedInherited True (Inl (External ''none''))) ''/ws'' ''/ws''
          [''proj:toString''] False emptyWorld)
     = Inl (TypeError (PropertyOfUndefined ''split''))"
proof -
  let ?E = "exampleEnv exampleParsedInherited True (Inl (External ''none''))"
  let ?p = "parseRunOpts ?E ''/ws'' [''proj:toString'']
              (calculateDefaultProjectName ?E ''/ws'' exampleWorkspace) emptyWorld"
  have f: "fst ?p = Inr exampleInheritedTarget"
    by (simp add: parse_fst parsedArgs_def exampleEnv_def exampleParsedInherited_def getProp_def
          element_def emptyWorld_def exampleInheritedTarget_def)
  have ws: "readWorkspaceConfiguration ?E = Inr exampleWorkspace"
    by (simp add: exampleEnv_def)
  show ?thesis
    by (simp add: runBody_def ws Let_def split_def f example_validate example_targetOf
          example_executorParts_builtin)
qed

section \<open>Claims\<close>

text \<open>
  C1. A native executor whose promise resolves to an outcome gives exit code 0 when
  \<open>success\<close> is true and 1 when it is false. A non-empty sequence of outcomes, from a
  native executor or from the legacy bridge, is consumed to its end in arrival order:
  after any non-empty prefix the loop variable holds the last outcome of the prefix and
  the iterator holds the rest, the loop leaves the iterator empty, and the exit code is
  0 or 1 by the \<open>success\<close> flag of the last outcome alone.
\<close>

theorem dispatch_exit_code:
  "(isNxExecutor env nm ex \<longrightarrow>
      impl co \<lparr>context_root = root, context_target = tgt, context_workspace = ws,
               context_projectName = project opts\<rparr> = Inr (Promise (Inr v)) \<longrightarrow>
      fst (dispatch env root vb ws opts tgt nm ex impl co w) = Inr (if success v then 0 else 1))
   \<and> (xs \<noteq> [] \<longrightarrow>
        forAwait None (AsyncIterator xs None) = (Inr (Some (last xs)), AsyncIterator [] None)
        \<and> (\<forall>ys zs e. xs = ys @ zs \<longrightarrow> ys \<noteq> [] \<longrightarrow>
              forAwait None (AsyncIterator xs e) = forAwait (Some (last ys)) (AsyncIterator zs e))
        \<and> iteratorToProcessStatusCode (AsyncIterator xs None)
            = Inr (if success (last xs) then 0 else 1))
   \<and> (xs \<noteq> [] \<longrightarrow> isNxExecutor env nm ex \<longrightarrow>
        impl co \<lparr>context_root = root, context_target = tgt, context_workspace = ws,
                 context_projectName = project opts\<rparr> = Inr (Iterator (AsyncIterator xs None)) \<longrightarrow>
        fst (dispatch env root vb ws opts tgt nm ex impl co w)
          = Inr (if success (last xs) then 0 else 1))
   \<and> (xs \<noteq> [] \<longrightarrow> \<not> isNxExecutor env nm ex \<longrightarrow>
        scheduleTarget env root
           \<lparr>project = project opts, target = target opts, configuration = configuration opts,
            helpFlag = helpFlag opts, runOptions = co\<rparr> vb = Inr (AsyncIterator xs None) \<longrightarrow>
        fst (dispatch env root vb ws opts tgt nm ex impl co w)
          = Inr (if success (last xs) then 0 else 1))"
  by (simp add: dispatch_def Let_def status_nonempty forAwait_all forAwait_prefix)

theorem dispatch_exit_code_witness:
  "fst (dispatch (exampleEnv Map.empty True (Inr (Promise (Inr \<lparr>success = True\<rparr>)))) ''/ws'' False
          exampleWorkspace exampleOpts (Value exampleBuild)
          (JStr ''@nrwl/web'') (JStr ''build'')
          (\<lambda>co ctx. Inr (Promise (Inr \<lparr>success = True\<rparr>))) Map.empty emptyWorld) = Inr 0
   \<and> forAwait None (AsyncIterator exampleSequence None)
        = (Inr (Some \<lparr>success = False\<rparr>), AsyncIterator [] None)
   \<and> fst (dispatch (exampleEnv Map.empty True (Inr (Iterator (AsyncIterator exampleSequence None))))
          ''/ws'' False exampleWorkspace exampleOpts (Value exampleBuild)
          (JStr ''@nrwl/web'') (JStr ''build'')
          (\<lambda>co ctx. Inr (Iterator (AsyncIterator exampleSequence None))) Map.empty emptyWorld) = Inr 1
   \<and> fst (dispatch (exampleEnv Map.empty False (Inr (Iterator (AsyncIterator exampleSequence None))))
          ''/ws'' False exampleWorkspace exampleOpts (Value exampleBuild)
          (JStr ''@nrwl/web'') (JStr ''build'')
          (\<lambda>co ctx. Inr (Iterator (AsyncIterator exampleSequence None))) Map.empty emptyWorld) = Inr 1"
proof -
  let ?t = "Value exampleBuild"
  let ?p = "Inr (Promise (Inr \<lparr>success = True\<rparr>)) :: error + executorResult"
  let ?i = "Inr (Iterator (AsyncIterator exampleSequence None)) :: error + executorResult"
  have ne: "exampleSequence \<noteq> []" by (simp add: exampleSequence_def)
  have l: "last exampleSequence = \<lparr>success = False\<rparr>" by (simp add: exampleSequence_def)
  note a = dispatch_exit_code [where env = "exampleEnv Map.empty True ?p"
      and nm = "JStr ''@nrwl/web''" and ex = "JStr ''build''" and impl = "\<lambda>co ctx. ?p"
      and co = Map.empty and root = "''/ws''" and tgt = ?t and ws = exampleWorkspace
      and opts = exampleOpts and v = "\<lparr>success = True\<rparr>" and vb = False and w = emptyWorld
      and xs = exampleSequence]
  note b = dispatch_exit_code [where env = "exampleEnv Map.empty True ?i"
      and nm = "JStr ''@nrwl/web''" and ex = "JStr ''build''" and impl = "\<lambda>co ctx. ?i"
      and co = Map.empty and root = "''/ws''" and tgt = ?t and ws = exampleWorkspace
      and opts = exampleOpts and v = "\<lparr>success = True\<rparr>" and vb = False and w = emptyWorld
      and xs = exampleSequence]
  note c = dispatch_exit_code [where env = "exampleEnv Map.empty False ?i"
      and nm = "JStr ''@nrwl/web''" and ex = "JStr ''build''" and impl = "\<lambda>co ctx. ?i"
      and co = Map.empty and root = "''/ws''" and tgt = ?t and ws = exampleWorkspace
      and opts = exampleOpts and v = "\<lparr>success = True\<rparr>" and vb = False and w = emptyWorld
      and xs = exampleSequence]
  show ?thesis using a b c ne l by (simp add: exampleEnv_def)
qed




text \<open>
  C3. When the parsed request has \<open>help\<close> set, the run never invokes an executor: the
  closure adds no call of an executor implementation and no call of the legacy bridge to
  the log, whatever the later steps do. When the steps that precede the help test
  (validation, the lookup of the target and of its executor, \<^verbatim>\<open>readExecutor\<close> and
  \<^verbatim>\<open>combineOptionsForExecutor\<close>) succeed, the closure prints the help for the executor's
  schema under the label \<^verbatim>\<open>nx run <project>:<target>\<close> and returns 0, and \<^verbatim>\<open>run\<close> hands
  that exit code to the top-level handler.
\<close>

theorem help_skips_executor:
  assumes "readWorkspaceConfiguration env = Inr ws"
    and "parseRunOpts env cwd args (calculateDefaultProjectName env cwd ws) w = (Inr opts, w1)"
    and "truthy (helpFlag opts)"
  shows "filter isInvocation (events (snd (runBody env cwd root args vb w)))
           = filter isInvocation (events w)
       \<and> (validateTargetAndConfiguration env ws opts = Inr () \<longrightarrow>
          targetOf env ws opts = Inr tgt \<longrightarrow>
          executorParts env tgt = Inr (nm, ex) \<longrightarrow>
          readExecutor env nm ex = Inr (schema, impl) \<longrightarrow>
          combineOptionsForExecutor env (heap w1 ! runOptions opts) (configuration opts) tgt schema
            (calculateDefaultProjectName env cwd ws) (relativeCwd env cwd) = Inr co \<longrightarrow>
          runBody env cwd root args vb w
            = (Inr 0, w1\<lparr>events := events w1 @
                 [PrintHelp (''nx run '' @ toStr (project opts) @ '':'' @ toStr (target opts))
                    schema]\<rparr>)
          \<and> run env cwd root args vb w
            = handleErrors env vb
                (Inr 0, w1\<lparr>events := events w1 @
                   [PrintHelp (''nx run '' @ toStr (project opts) @ '':'' @ toStr (target opts))
                      schema]\<rparr>))"
  using runBody_help_events [OF assms, of root vb] assms(3)
    runBody_stages [OF assms(1) assms(2), of tgt nm ex schema impl co root vb]
  by (simp add: printRunHelp_def emit_def run_def)

theorem help_skips_executor_witness:
  "truthy (JBool True)
   \<and> fst (run (exampleEnv exampleParsedHelp True (Inr (Promise (Inr \<lparr>success = False\<rparr>))))
            ''/ws'' ''/ws'' [''proj:build'', ''--help''] False emptyWorld) = 0
   \<and> events (snd (runBody (exampleEnv exampleParsedHelp True (Inr (Promise (Inr \<lparr>success = False\<rparr>))))
            ''/ws'' ''/ws'' [''proj:build'', ''--help''] False emptyWorld))
       = [PrintHelp ''nx run proj:build'' ()]"
proof -
  let ?E = "exampleEnv exampleParsedHelp True (Inr (Promise (Inr \<lparr>success = False\<rparr>)))"
  let ?args = "[''proj:build'', ''--help'']"
  let ?p = "parseRunOpts ?E ''/ws'' ?args (calculateDefaultProjectName ?E ''/ws'' exampleWorkspace)
              emptyWorld"
  let ?opts = "\<lparr>project = JStr ''proj'', target = JStr ''build'', configuration = JUndefined,
            helpFlag = JBool True, runOptions = 0\<rparr> :: nat RunOptions"
  let ?tgt = "Value exampleBuild"
  have ws: "readWorkspaceConfiguration ?E = Inr exampleWorkspace"
    by (simp add: exampleEnv_def)
  have f: "fst ?p = Inr ?opts"
    by (simp add: parse_fst parsedArgs_def exampleEnv_def exampleParsedHelp_def getProp_def
          element_def emptyWorld_def)
  then have p: "?p = (Inr ?opts, snd ?p)"
    by (simp add: prod_eq_iff)
  have h: "truthy (helpFlag ?opts)" by simp
  have d: "calculateDefaultProjectName ?E ''/ws'' exampleWorkspace = None"
    by (simp add: exampleEnv_def)
  have ev: "events (snd ?p) = []"
    by (simp add: d parse_events_None emptyWorld_def)
  have v: "validateTargetAndConfiguration ?E exampleWorkspace ?opts = Inr ()"
    by (simp add: validateTargetAndConfiguration_def example_reads example_truthy)
  have tg: "targetOf ?E exampleWorkspace ?opts = Inr ?tgt"
    by (simp add: targetOf_def example_reads)
  have xp: "executorParts ?E ?tgt = Inr (JStr ''@nrwl/web'', JStr ''build'')"
    by (rule example_executorParts)
  have re: "readExecutor ?E (JStr ''@nrwl/web'') (JStr ''build'')
            = Inr ((), \<lambda>co ctx. Inr (Promise (Inr \<lparr>success = False\<rparr>)))"
    by (simp add: exampleEnv_def)
  have co: "combineOptionsForExecutor ?E (heap (snd ?p) ! runOptions ?opts) (configuration ?opts)
              ?tgt () (calculateDefaultProjectName ?E ''/ws'' exampleWorkspace)
              (relativeCwd ?E ''/ws'')
            = Inr (heap (snd ?p) ! runOptions ?opts)"
    by (simp add: exampleEnv_def)
  have he: "handleErrors ?E = (\<lambda>v r. (case fst r of Inl e \<Rightarrow> 1 | Inr code \<Rightarrow> code, snd r))"
    by (simp add: exampleEnv_def)
  from help_skips_executor [OF ws p h, of "''/ws''" False ?tgt "JStr ''@nrwl/web''"
      "JStr ''build''" "()"
      "\<lambda>co ctx. Inr (Promise (Inr \<lparr>success = False\<rparr>))" "heap (snd ?p) ! runOptions ?opts"]
    v tg xp re co ev
  show ?thesis by (simp add: he)
qed

text \<open>
  C4. The claim fails for a positional token that minimist delivers as a number: for the
  argument list \<^verbatim>\<open>["123"]\<close> the options object holds the number 123 as its first
  positional argument, which is truthy and has no \<^verbatim>\<open>split\<close> method, so the parser raises a
  \<^verbatim>\<open>TypeError\<close>: neither the invalid-invocation error nor a request. (For a token that is
  a string the claim holds: \<open>invalid_invocation_string_token\<close>.)
\<close>

theorem numeric_token_type_error:
  "parsedArgs (exampleEnv exampleParsedNumeric True (Inl (External ''none''))) [''123'']
     = exampleParsedNumeric
   \<and> positionalToken exampleParsedNumeric = JNum 123
   \<and> fst (parseRunOpts (exampleEnv exampleParsedNumeric True (Inl (External ''none''))) ''/ws''
            [''123''] None emptyWorld)
       = Inl (TypeError (NotAFunction ''runOptions._[0].split''))"
  by (simp add: parse_fst parsedArgs_def exampleEnv_def exampleParsedNumeric_def getProp_def
        positionalToken_def)

theorem numeric_token_type_error_witness:
  "fst (parseRunOpts (exampleEnv exampleParsedNumeric True (Inl (External ''none''))) ''/ws''
          [''123''] None emptyWorld) \<noteq> Inl InvalidInvocation
   \<and> (\<forall>res. fst (parseRunOpts (exampleEnv exampleParsedNumeric True (Inl (External ''none'')))
                   ''/ws'' [''123''] None emptyWorld) \<noteq> Inr res)"
  using numeric_token_type_error by simp

text \<open>
  C5. The payload is not sorted: for a project whose targets are declared in the order
  \<^verbatim>\<open>test\<close>, \<^verbatim>\<open>build\<close> and a request for the target \<^verbatim>\<open>lint\<close>, which is no key of the target
  map, the error lists \<^verbatim>\<open>test\<close>, \<^verbatim>\<open>build\<close>, and the sorted list (strings in the order of
  their character codes, as \<^verbatim>\<open>Array.prototype.sort\<close> orders them) is \<^verbatim>\<open>build\<close>, \<^verbatim>\<open>test\<close>.
\<close>

theorem target_names_sorted_counterexample:
  "map_of exampleTargets (toStr (target exampleLint)) = None
   \<and> map fst exampleTargets = [''test'', ''build'']
   \<and> validateTargetAndConfiguration (exampleEnv Map.empty True (Inl (External ''none'')))
        exampleWorkspace exampleLint
     = Inl (TargetNotFound (JStr ''lint'') (JStr ''proj'') [''test'', ''build''])
   \<and> sort [''test'', ''build''] = [''build'', ''test'']
   \<and> [''test'', ''build''] \<noteq> sort [''test'', ''build'']"
proof -
  have 1: "map_of exampleTargets (toStr (target exampleLint)) = None"
    "map fst exampleTargets = [''test'', ''build'']"
    by (simp_all add: exampleTargets_def exampleLint_def)
  have 2: "validateTargetAndConfiguration (exampleEnv Map.empty True (Inl (External ''none'')))
             exampleWorkspace exampleLint
           = Inl (TargetNotFound (JStr ''lint'') (JStr ''proj'') (map fst exampleTargets))"
    by (simp add: validateTargetAndConfiguration_def example_reads example_truthy exampleLint_def)
  have 3: "sort [''test'', ''build''] = [''build'', ''test'']"
    by (simp add: less_eq_char_def less_char_def)
  from 1 2 3 show ?thesis
    by simp
qed

text \<open>
  C5, as amended. For every workspace and request whose project exists, with a target
  map that is a plain object, and whose target name is neither a key of that target map
  nor a name that \<^verbatim>\<open>Object.prototype\<close> supplies, validation fails with the
  target-not-found error, and the error lists the keys of the target map, all of them, in
  the order in which \<^verbatim>\<open>Object.keys\<close> enumerates them; the message joins them with a comma
  and a space. (For a name that \<^verbatim>\<open>Object.prototype\<close> supplies, such as \<^verbatim>\<open>toString\<close>, the
  read on line 101 finds the inherited property and no error is raised:
  \<open>inherited_target_reaches_executor\<close>.)
\<close>

theorem target_not_found:
  assumes "getProperty env (Value ws) ''projects'' = Inr allProjects"
    and "getProperty env allProjects (toStr (project opts)) = Inr proj"
    and "truthyMember proj"
    and "getProperty env proj ''targets'' = Inr (Value (JObj ts))"
    and "map_of ts (toStr (target opts)) = None"
    and "toStr (target opts) \<notin> set objectPrototypeNames"
  shows "validateTargetAndConfiguration env ws opts
           = Inl (TargetNotFound (target opts) (project opts) (map fst ts))
       \<and> set (map fst ts) = dom (map_of ts)
       \<and> errorMessage bold (TargetNotFound (target opts) (project opts) (map fst ts))
           = Some (''Could not find target '' @ [CHR 0x22] @ toStr (target opts) @ [CHR 0x22]
               @ '' in the '' @ toStr (project opts) @ '' project. Valid targets are: ''
               @ bold (join '', '' (map fst ts)))"
  using assms
  by (simp add: validateTargetAndConfiguration_def getProperty_object dom_map_of_conv_image_fst)

theorem target_not_found_witness:
  "getProperty (exampleEnv Map.empty True (Inl (External ''none''))) (Value exampleProject)
       ''targets'' = Inr (Value (JObj exampleTargets))
   \<and> map_of exampleTargets (toStr (target exampleLint)) = None
   \<and> toStr (target exampleLint) \<notin> set objectPrototypeNames
   \<and> validateTargetAndConfiguration (exampleEnv Map.empty True (Inl (External ''none'')))
        exampleWorkspace exampleLint
       = Inl (TargetNotFound (JStr ''lint'') (JStr ''proj'') [''test'', ''build''])
   \<and> errorMessage id (TargetNotFound (JStr ''lint'') (JStr ''proj'') [''test'', ''build''])
       = Some (''Could not find target '' @ [CHR 0x22] @ ''lint'' @ [CHR 0x22]
           @ '' in the proj project. Valid targets are: test, build'')"
proof -
  let ?E = "exampleEnv Map.empty True (Inl (External ''none''))"
  have a: "getProperty ?E (Value exampleWorkspace) ''projects''
             = Inr (Value (JObj [(''proj'', exampleProject)]))"
    by (rule example_reads)
  have b: "getProperty ?E (Value (JObj [(''proj'', exampleProject)])) (toStr (project exampleLint))
             = Inr (Value exampleProject)"
    by (simp add: example_reads exampleLint_def)
  have c: "truthyMember (Value exampleProject)"
    by (simp add: example_truthy)
  have d: "getProperty ?E (Value exampleProject) ''targets'' = Inr (Value (JObj exampleTargets))"
    by (rule example_reads)
  have e: "map_of exampleTargets (toStr (target exampleLint)) = None"
    by (simp add: exampleTargets_def exampleLint_def)
  have f: "toStr (target exampleLint) \<notin> set objectPrototypeNames"
    by (simp add: exampleLint_def objectPrototypeNames_def)
  have k: "map fst exampleTargets = [''test'', ''build'']"
    by (simp add: exampleTargets_def)
  have o: "target exampleLint = JStr ''lint''" "project exampleLint = JStr ''proj''"
    by (simp_all add: exampleLint_def)
  from target_not_found [OF a b c d e f, of id] d e f show ?thesis
    by (simp add: k o)
qed

text \<open>
  C6. The claim fails for a configuration name that \<^verbatim>\<open>Object.prototype\<close> supplies. The
  request \<^verbatim>\<open>proj:build:constructor\<close> sets a configuration name, the target \<^verbatim>\<open>build\<close> has
  a configurations map, and the map, whose keys are \<^verbatim>\<open>production\<close> and \<^verbatim>\<open>staging\<close>, does
  not contain the name; yet validation succeeds, because line 115 reads the inherited
  \<^verbatim>\<open>constructor\<close> and line 116 tests only its truthiness. The same test rejects a name
  that the map does contain when its value is falsy: for the configuration \<^verbatim>\<open>dev\<close> that
  is \<^verbatim>\<open>null\<close>, validation fails with the "not found" error that lists \<^verbatim>\<open>dev\<close>. (For names
  that \<^verbatim>\<open>Object.prototype\<close> does not supply and maps with truthy values the claim holds:
  \<open>configuration_check_own_names\<close>.)
\<close>

theorem inherited_configuration_passes:
  "truthy (configuration exampleInheritedConfiguration)
   \<and> targetOf (exampleEnv Map.empty True (Inl (External ''none''))) exampleWorkspace
        exampleInheritedConfiguration = Inr (Value exampleBuild)
   \<and> getProperty (exampleEnv Map.empty True (Inl (External ''none''))) (Value exampleBuild)
        ''configurations'' = Inr (Value (JObj exampleConfigurations))
   \<and> map fst exampleConfigurations = [''production'', ''staging'']
   \<and> map_of exampleConfigurations (toStr (configuration exampleInheritedConfiguration)) = None
   \<and> validateTargetAndConfiguration (exampleEnv Map.empty True (Inl (External ''none'')))
        exampleWorkspace exampleInheritedConfiguration = Inr ()
   \<and> validateTargetAndConfiguration (exampleEnv Map.empty True (Inl (External ''none'')))
        exampleNullWorkspace exampleNullConfiguration
       = Inl (ConfigurationNotFound (JStr ''dev'') (JStr ''proj'') (JStr ''build'')
                [''production'', ''dev''])"
proof -
  let ?E = "exampleEnv Map.empty True (Inl (External ''none''))"
  have 1: "validateTargetAndConfiguration ?E exampleWorkspace exampleInheritedConfiguration = Inr ()"
    by (simp add: validateTargetAndConfiguration_def example_reads example_truthy
          exampleInheritedConfiguration_def)
  have 2: "validateTargetAndConfiguration ?E exampleNullWorkspace exampleNullConfiguration
       = Inl (ConfigurationNotFound (JStr ''dev'') (JStr ''proj'') (JStr ''build'')
                [''production'', ''dev''])"
    by (simp add: validateTargetAndConfiguration_def getProperty_object exampleNullWorkspace_def
          exampleNullConfiguration_def objectPrototypeNames_def)
  have 3: "map_of exampleConfigurations (toStr (configuration exampleInheritedConfiguration)) = None"
    "map fst exampleConfigurations = [''production'', ''staging'']"
    "truthy (configuration exampleInheritedConfiguration)"
    by (simp_all add: exampleConfigurations_def exampleInheritedConfiguration_def)
  from 1 2 3 show ?thesis
    by (simp add: example_targetOf example_reads)
qed

theorem inherited_configuration_passes_witness:
  "\<not> isConfigurationNotFound
        (validateTargetAndConfiguration (exampleEnv Map.empty True (Inl (External ''none'')))
           exampleWorkspace exampleInheritedConfiguration)
   \<and> isConfigurationNotFound
        (validateTargetAndConfiguration (exampleEnv Map.empty True (Inl (External ''none'')))
           exampleNullWorkspace exampleNullConfiguration)"
  using inherited_configuration_passes by simp

text \<open>
  C7. A request that \<^verbatim>\<open>parseRunOpts\<close> returns was read from a positional token that is a
  string: its target is the second part of the token split on \<^verbatim>\<open>:\<close>, its configuration
  the third part unless a flag overrides it, its project the first part unless the
  \<^verbatim>\<open>project\<close> flag or, for an empty first part, the default project name replaces it; a
  part that the token does not have is \<^verbatim>\<open>undefined\<close>, and parts after the third are
  ignored. Without flags, the token \<^verbatim>\<open>p:t\<close> gives project \<open>p\<close>, target \<open>t\<close> and no
  configuration, and the token \<^verbatim>\<open>p:t:c\<close> gives the configuration \<open>c\<close> as well.
\<close>

theorem positional_token_split:
  "(fst (parseRunOpts env cwd args d w) = Inr res \<longrightarrow>
      (\<exists>token. positionalToken (parsedArgs env args) = JStr token
         \<and> target res = element (split CHR '':'' token) 1
         \<and> (\<not> truthy (getProp (parsedArgs env args) ''project'') \<longrightarrow>
              project res = (case d of
                               None \<Rightarrow> element (split CHR '':'' token) 0
                             | Some dn \<Rightarrow> if element (split CHR '':'' token) 0 = JStr [] \<and> dn \<noteq> []
                                         then JStr dn else element (split CHR '':'' token) 0))
         \<and> (\<not> truthy (getProp (parsedArgs env args) ''configuration'') \<longrightarrow>
             \<not> truthy (getProp (parsedArgs env args) ''prod'') \<longrightarrow>
              configuration res = element (split CHR '':'' token) 2)))
   \<and> (CHR '':'' \<notin> set p \<longrightarrow> CHR '':'' \<notin> set t \<longrightarrow> p \<noteq> [] \<longrightarrow> t \<noteq> [] \<longrightarrow>
      \<not> truthy (getProp (parsedArgs env args) ''project'') \<longrightarrow>
      \<not> truthy (getProp (parsedArgs env args) ''configuration'') \<longrightarrow>
      \<not> truthy (getProp (parsedArgs env args) ''prod'') \<longrightarrow>
        (positionalToken (parsedArgs env args) = JStr (p @ '':'' @ t) \<longrightarrow>
           fst (parseRunOpts env cwd args d w)
             = Inr \<lparr>project = JStr p, target = JStr t, configuration = JUndefined,
                    helpFlag = getProp (parsedArgs env args) ''help'',
                    runOptions = length (heap w)\<rparr>)
      \<and> (CHR '':'' \<notin> set c \<longrightarrow>
         positionalToken (parsedArgs env args) = JStr (p @ '':'' @ t @ '':'' @ c) \<longrightarrow>
           fst (parseRunOpts env cwd args d w)
             = Inr \<lparr>project = JStr p, target = JStr t, configuration = JStr c,
                    helpFlag = getProp (parsedArgs env args) ''help'',
                    runOptions = length (heap w)\<rparr>))"
proof -
  have a: "fst (parseRunOpts env cwd args d w) = Inr res \<Longrightarrow>
      (\<exists>token. positionalToken (parsedArgs env args) = JStr token
         \<and> target res = element (split CHR '':'' token) 1
         \<and> (\<not> truthy (getProp (parsedArgs env args) ''project'') \<longrightarrow>
              project res = (case d of
                               None \<Rightarrow> element (split CHR '':'' token) 0
                             | Some dn \<Rightarrow> if element (split CHR '':'' token) 0 = JStr [] \<and> dn \<noteq> []
                                         then JStr dn else element (split CHR '':'' token) 0))
         \<and> (\<not> truthy (getProp (parsedArgs env args) ''configuration'') \<longrightarrow>
             \<not> truthy (getProp (parsedArgs env args) ''prod'') \<longrightarrow>
              configuration res = element (split CHR '':'' token) 2))"
  proof -
    assume r: "fst (parseRunOpts env cwd args d w) = Inr res"
    then obtain token where t: "index0 (getProp (parsedArgs env args) ''_'') = JStr token"
      by (simp add: parse_fst Let_def split: if_splits jsval.splits)
    have ne: "split CHR '':'' token \<noteq> []"
      by (rule split_nonempty)
    show ?thesis
      using r t ne
      by (cases d) (auto simp add: parse_fst Let_def element_def positionalToken_def split: if_splits)
  qed
  have g: "\<And>s. positionalToken (parsedArgs env args) = JStr s \<Longrightarrow> s \<noteq> [] \<Longrightarrow>
             truthy (getProp (parsedArgs env args) ''_'')"
    using index0_falsy [of "getProp (parsedArgs env args) ''_''"]
    by (auto simp add: positionalToken_def)
  have b: "CHR '':'' \<notin> set p \<Longrightarrow> CHR '':'' \<notin> set t \<Longrightarrow> p \<noteq> [] \<Longrightarrow> t \<noteq> [] \<Longrightarrow>
          \<not> truthy (getProp (parsedArgs env args) ''project'') \<Longrightarrow>
          \<not> truthy (getProp (parsedArgs env args) ''configuration'') \<Longrightarrow>
          \<not> truthy (getProp (parsedArgs env args) ''prod'') \<Longrightarrow>
          positionalToken (parsedArgs env args) = JStr (p @ '':'' @ t) \<Longrightarrow>
               fst (parseRunOpts env cwd args d w)
                 = Inr \<lparr>project = JStr p, target = JStr t, configuration = JUndefined,
                        helpFlag = getProp (parsedArgs env args) ''help'',
                        runOptions = length (heap w)\<rparr>"
    using split_two [of p t] g [of "p @ '':'' @ t"]
    by (cases d) (simp_all add: parse_fst Let_def element_def positionalToken_def)
  have c: "CHR '':'' \<notin> set p \<Longrightarrow> CHR '':'' \<notin> set t \<Longrightarrow> p \<noteq> [] \<Longrightarrow> t \<noteq> [] \<Longrightarrow>
          \<not> truthy (getProp (parsedArgs env args) ''project'') \<Longrightarrow>
          \<not> truthy (getProp (parsedArgs env args) ''configuration'') \<Longrightarrow>
          \<not> truthy (getProp (parsedArgs env args) ''prod'') \<Longrightarrow>
          CHR '':'' \<notin> set c \<Longrightarrow>
          positionalToken (parsedArgs env args) = JStr (p @ '':'' @ t @ '':'' @ c) \<Longrightarrow>
               fst (parseRunOpts env cwd args d w)
                 = Inr \<lparr>project = JStr p, target = JStr t, configuration = JStr c,
                        helpFlag = getProp (parsedArgs env args) ''help'',
                        runOptions = length (heap w)\<rparr>"
    using split_three [of p t c] g [of "p @ '':'' @ t @ '':'' @ c"]
    by (cases d) (simp_all add: parse_fst Let_def element_def positionalToken_def)
  from a b c show ?thesis by blast
qed

theorem positional_token_split_witness:
  "positionalToken (parsedArgs (exampleEnv exampleParsedPlain True (Inl (External ''none'')))
      [''proj:build'']) = JStr ''proj:build''
   \<and> fst (parseRunOpts (exampleEnv exampleParsedPlain True (Inl (External ''none''))) ''/ws''
            [''proj:build''] None emptyWorld)
       = Inr \<lparr>project = JStr ''proj'', target = JStr ''build'', configuration = JUndefined,
              helpFlag = JBool False, runOptions = 0\<rparr>
   \<and> positionalToken (parsedArgs (exampleEnv exampleParsedThree True (Inl (External ''none'')))
        [''proj:build:prod'']) = JStr ''proj:build:prod''
   \<and> fst (parseRunOpts (exampleEnv exampleParsedThree True (Inl (External ''none''))) ''/ws''
            [''proj:build:prod''] None emptyWorld)
       = Inr \<lparr>project = JStr ''proj'', target = JStr ''build'', configuration = JStr ''prod'',
              helpFlag = JBool False, runOptions = 0\<rparr>"
proof -
  let ?E = "exampleEnv exampleParsedPlain True (Inl (External ''none''))"
  let ?F = "exampleEnv exampleParsedThree True (Inl (External ''none''))"
  have pa: "parsedArgs ?E [''proj:build''] = exampleParsedPlain"
    "parsedArgs ?F [''proj:build:prod''] = exampleParsedThree"
    by (simp_all add: parsedArgs_def exampleEnv_def)
  have g: "positionalToken exampleParsedPlain = JStr ''proj:build''"
    "getProp exampleParsedPlain ''project'' = JUndefined"
    "getProp exampleParsedPlain ''configuration'' = JUndefined"
    "getProp exampleParsedPlain ''prod'' = JBool False"
    "getProp exampleParsedPlain ''help'' = JBool False"
    "positionalToken exampleParsedThree = JStr ''proj:build:prod''"
    "getProp exampleParsedThree ''project'' = JUndefined"
    "getProp exampleParsedThree ''configuration'' = JUndefined"
    "getProp exampleParsedThree ''prod'' = JBool False"
    "getProp exampleParsedThree ''help'' = JBool False"
    by (simp_all add: positionalToken_def getProp_def exampleParsedPlain_def exampleParsedThree_def)
  have n: "CHR '':'' \<notin> set ''proj''" "CHR '':'' \<notin> set ''build''" "CHR '':'' \<notin> set ''prod''"
    by simp_all
  from positional_token_split [where env = ?E and args = "[''proj:build'']"
      and p = "''proj''" and t = "''build''" and c = "''prod''"
      and cwd = "''/ws''" and d = None and w = emptyWorld
      and res = "\<lparr>project = JStr ''proj'', target = JStr ''build'', configuration = JUndefined,
              helpFlag = JBool False, runOptions = 0\<rparr>"]
  have 1: "fst (parseRunOpts ?E ''/ws'' [''proj:build''] None emptyWorld)
       = Inr \<lparr>project = JStr ''proj'', target = JStr ''build'', configuration = JUndefined,
              helpFlag = JBool False, runOptions = 0\<rparr>"
    using n by (simp add: pa g emptyWorld_def)
  from positional_token_split [where env = ?F and args = "[''proj:build:prod'']"
      and p = "''proj''" and t = "''build''" and c = "''prod''"
      and cwd = "''/ws''" and d = None and w = emptyWorld
      and res = "\<lparr>project = JStr ''proj'', target = JStr ''build'', configuration = JStr ''prod'',
              helpFlag = JBool False, runOptions = 0\<rparr>"]
  have 2: "fst (parseRunOpts ?F ''/ws'' [''proj:build:prod''] None emptyWorld)
       = Inr \<lparr>project = JStr ''proj'', target = JStr ''build'', configuration = JStr ''prod'',
              helpFlag = JBool False, runOptions = 0\<rparr>"
    using n by (simp add: pa g emptyWorld_def)
  from 1 2 show ?thesis by (simp add: pa g)
qed

text \<open>
  C8. When \<^verbatim>\<open>parseRunOpts\<close> returns, the object that \<open>runOptions\<close> of the result refers to
  has none of the recognized keys \<^verbatim>\<open>help\<close>, \<^verbatim>\<open>_\<close>, \<^verbatim>\<open>c\<close>, \<^verbatim>\<open>configuration\<close>, \<^verbatim>\<open>prod\<close> and
  \<^verbatim>\<open>project\<close>, and every other key has the value the parsed options gave it. The object
  is the one allocated by this call; the objects that were in the store before are
  unchanged.
\<close>

theorem recognized_keys_removed:
  assumes "parseRunOpts env cwd args d w = (Inr res, w')"
  shows "runOptions res = length (heap w) \<and> length (heap w') = Suc (length (heap w))
       \<and> (\<forall>k \<in> recognizedKeys. (heap w' ! runOptions res) k = None)
       \<and> (\<forall>k. k \<notin> recognizedKeys \<longrightarrow> (heap w' ! runOptions res) k = parsedArgs env args k)
       \<and> (\<forall>i < length (heap w). heap w' ! i = heap w ! i)"
proof -
  have f: "fst (parseRunOpts env cwd args d w) = Inr res"
    and s: "snd (parseRunOpts env cwd args d w) = w'"
    using assms by simp_all
  have r: "runOptions res = length (heap w)"
    using f by (simp add: parse_fst Let_def split: if_splits jsval.splits) auto
  have h: "heap w' = heap w @ [(parsedArgs env args)
                    (''help'' := None, ''_'' := None, ''c'' := None, ''configuration'' := None,
                     ''prod'' := None, ''project'' := None)]"
    using parse_heap [of env cwd args d w] by (simp add: f s)
  show ?thesis
    by (simp add: r h recognizedKeys_def nth_append)
qed

theorem recognized_keys_removed_witness:
  "fst (parseRunOpts (exampleEnv exampleParsed True (Inl (External ''none''))) ''/ws''
          [''proj:build'', ''--prod'', ''--configuration=staging'', ''--watch''] None emptyWorld)
     = Inr \<lparr>project = JStr ''proj'', target = JStr ''build'', configuration = JStr ''production'',
            helpFlag = JBool False, runOptions = 0\<rparr>
   \<and> (heap (snd (parseRunOpts (exampleEnv exampleParsed True (Inl (External ''none''))) ''/ws''
          [''proj:build'', ''--prod'', ''--configuration=staging'', ''--watch''] None emptyWorld)) ! 0)
        ''prod'' = None
   \<and> (heap (snd (parseRunOpts (exampleEnv exampleParsed True (Inl (External ''none''))) ''/ws''
          [''proj:build'', ''--prod'', ''--configuration=staging'', ''--watch''] None emptyWorld)) ! 0)
        ''watch'' = Some (JBool True)"
proof -
  let ?E = "exampleEnv exampleParsed True (Inl (External ''none''))"
  let ?args = "[''proj:build'', ''--prod'', ''--configuration=staging'', ''--watch'']"
  let ?p = "parseRunOpts ?E ''/ws'' ?args None emptyWorld"
  let ?r = "\<lparr>project = JStr ''proj'', target = JStr ''build'', configuration = JStr ''production'',
            helpFlag = JBool False, runOptions = 0\<rparr> :: nat RunOptions"
  have f: "fst ?p = Inr ?r"
    by (simp add: parse_fst parsedArgs_def exampleEnv_def exampleParsed_def getProp_def
          element_def emptyWorld_def)
  then have h: "?p = (Inr ?r, snd ?p)"
    by (simp add: prod_eq_iff)
  have pa: "parsedArgs ?E ?args ''watch'' = Some (JBool True)"
    by (simp add: parsedArgs_def exampleEnv_def exampleParsed_def)
  from recognized_keys_removed [OF h] f pa show ?thesis
    by (simp add: recognizedKeys_def)
qed

text \<open>
  C9. For a sequence that yields no outcome, \<^verbatim>\<open>iteratorToProcessStatusCode\<close> returns no
  exit code: the loop variable is still \<^verbatim>\<open>undefined\<close>, reading its \<^verbatim>\<open>success\<close> raises a
  \<^verbatim>\<open>TypeError\<close>, and the dispatch, for a native executor as for the legacy bridge, ends
  with that error and not with an exit code. In a run whose earlier steps succeed, whose
  request asks for no help and whose native executor returns such a sequence, the
  closure of \<^verbatim>\<open>run\<close> ends with the error after the one call of the executor, and the
  top-level handler receives it.
\<close>

theorem empty_sequence_throws:
  "iteratorToProcessStatusCode (AsyncIterator [] None)
     = Inl (TypeError (PropertyOfUndefined ''success''))
   \<and> (isNxExecutor env nm ex \<longrightarrow>
        impl co \<lparr>context_root = root, context_target = tgt, context_workspace = ws,
                 context_projectName = project opts\<rparr> = Inr (Iterator (AsyncIterator [] None)) \<longrightarrow>
        fst (dispatch env root vb ws opts tgt nm ex impl co w)
          = Inl (TypeError (PropertyOfUndefined ''success'')))
   \<and> (\<not> isNxExecutor env nm ex \<longrightarrow>
        scheduleTarget env root
           \<lparr>project = project opts, target = target opts, configuration = configuration opts,
            helpFlag = helpFlag opts, runOptions = co\<rparr> vb = Inr (AsyncIterator [] None) \<longrightarrow>
        fst (dispatch env root vb ws opts tgt nm ex impl co w)
          = Inl (TypeError (PropertyOfUndefined ''success'')))
   \<and> (readWorkspaceConfiguration env = Inr ws \<longrightarrow>
      parseRunOpts env cwd args (calculateDefaultProjectName env cwd ws) w0 = (Inr opts, w) \<longrightarrow>
      validateTargetAndConfiguration env ws opts = Inr () \<longrightarrow>
      targetOf env ws opts = Inr tgt \<longrightarrow>
      executorParts env tgt = Inr (nm, ex) \<longrightarrow>
      readExecutor env nm ex = Inr (schema, impl) \<longrightarrow>
      combineOptionsForExecutor env (heap w ! runOptions opts) (configuration opts) tgt schema
        (calculateDefaultProjectName env cwd ws) (relativeCwd env cwd) = Inr co \<longrightarrow>
      \<not> truthy (helpFlag opts) \<longrightarrow>
      isNxExecutor env nm ex \<longrightarrow>
      impl co \<lparr>context_root = root, context_target = tgt, context_workspace = ws,
               context_projectName = project opts\<rparr> = Inr (Iterator (AsyncIterator [] None)) \<longrightarrow>
        runBody env cwd root args vb w0
          = (Inl (TypeError (PropertyOfUndefined ''success'')),
             emit (ImplementationCalled co
                     \<lparr>context_root = root, context_target = tgt, context_workspace = ws,
                      context_projectName = project opts\<rparr>) w)
        \<and> run env cwd root args vb w0
            = handleErrors env vb
                (Inl (TypeError (PropertyOfUndefined ''success'')),
                 emit (ImplementationCalled co
                         \<lparr>context_root = root, context_target = tgt, context_workspace = ws,
                          context_projectName = project opts\<rparr>) w))"
proof -
  have d: "isNxExecutor env nm ex \<Longrightarrow>
        impl co \<lparr>context_root = root, context_target = tgt, context_workspace = ws,
                 context_projectName = project opts\<rparr> = Inr (Iterator (AsyncIterator [] None)) \<Longrightarrow>
        fst (dispatch env root vb ws opts tgt nm ex impl co w)
          = Inl (TypeError (PropertyOfUndefined ''success''))"
    by (simp add: dispatch_def Let_def status_empty)
  have b: "\<not> isNxExecutor env nm ex \<Longrightarrow>
        scheduleTarget env root
           \<lparr>project = project opts, target = target opts, configuration = configuration opts,
            helpFlag = helpFlag opts, runOptions = co\<rparr> vb = Inr (AsyncIterator [] None) \<Longrightarrow>
        fst (dispatch env root vb ws opts tgt nm ex impl co w)
          = Inl (TypeError (PropertyOfUndefined ''success''))"
    by (simp add: dispatch_def Let_def status_empty)
  have r: "readWorkspaceConfiguration env = Inr ws \<Longrightarrow>
      parseRunOpts env cwd args (calculateDefaultProjectName env cwd ws) w0 = (Inr opts, w) \<Longrightarrow>
      validateTargetAndConfiguration env ws opts = Inr () \<Longrightarrow>
      targetOf env ws opts = Inr tgt \<Longrightarrow>
      executorParts env tgt = Inr (nm, ex) \<Longrightarrow>
      readExecutor env nm ex = Inr (schema, impl) \<Longrightarrow>
      combineOptionsForExecutor env (heap w ! runOptions opts) (configuration opts) tgt schema
        (calculateDefaultProjectName env cwd ws) (relativeCwd env cwd) = Inr co \<Longrightarrow>
      \<not> truthy (helpFlag opts) \<Longrightarrow>
      isNxExecutor env nm ex \<Longrightarrow>
      impl co \<lparr>context_root = root, context_target = tgt, context_workspace = ws,
               context_projectName = project opts\<rparr> = Inr (Iterator (AsyncIterator [] None)) \<Longrightarrow>
        runBody env cwd root args vb w0
          = (Inl (TypeError (PropertyOfUndefined ''success'')),
             emit (ImplementationCalled co
                     \<lparr>context_root = root, context_target = tgt, context_workspace = ws,
                      context_projectName = project opts\<rparr>) w)
        \<and> run env cwd root args vb w0
            = handleErrors env vb
                (Inl (TypeError (PropertyOfUndefined ''success'')),
                 emit (ImplementationCalled co
                         \<lparr>context_root = root, context_target = tgt, context_workspace = ws,
                          context_projectName = project opts\<rparr>) w)"
  proof -
    assume a: "readWorkspaceConfiguration env = Inr ws"
      "parseRunOpts env cwd args (calculateDefaultProjectName env cwd ws) w0 = (Inr opts, w)"
      "validateTargetAndConfiguration env ws opts = Inr ()"
      "targetOf env ws opts = Inr tgt"
      "executorParts env tgt = Inr (nm, ex)"
      and e: "readExecutor env nm ex = Inr (schema, impl)"
      and c: "combineOptionsForExecutor env (heap w ! runOptions opts) (configuration opts) tgt schema
        (calculateDefaultProjectName env cwd ws) (relativeCwd env cwd) = Inr co"
      and h: "\<not> truthy (helpFlag opts)"
      and x: "isNxExecutor env nm ex"
      "impl co \<lparr>context_root = root, context_target = tgt, context_workspace = ws,
               context_projectName = project opts\<rparr> = Inr (Iterator (AsyncIterator [] None))"
    have "runBody env cwd root args vb w0 = dispatch env root vb ws opts tgt nm ex impl co w"
      using runBody_stages [OF a e c, of root vb] h by simp
    then have f: "runBody env cwd root args vb w0
          = (Inl (TypeError (PropertyOfUndefined ''success'')),
             emit (ImplementationCalled co
                     \<lparr>context_root = root, context_target = tgt, context_workspace = ws,
                      context_projectName = project opts\<rparr>) w)"
      using x by (simp add: dispatch_def Let_def status_empty)
    then show ?thesis
      by (simp add: run_def)
  qed
  from d b r show ?thesis
    by (simp add: status_empty)
qed

theorem empty_sequence_throws_witness:
  "fst (dispatch (exampleEnv exampleParsedPlain True (Inr (Iterator (AsyncIterator [] None))))
          ''/ws'' False exampleWorkspace exampleOpts (Value exampleBuild)
          (JStr ''@nrwl/web'') (JStr ''build'')
          (\<lambda>co ctx. Inr (Iterator (AsyncIterator [] None))) Map.empty emptyWorld)
     = Inl (TypeError (PropertyOfUndefined ''success''))
   \<and> fst (dispatch (exampleEnv exampleParsedPlain False (Inr (Iterator (AsyncIterator [] None))))
          ''/ws'' False exampleWorkspace exampleOpts (Value exampleBuild)
          (JStr ''@nrwl/web'') (JStr ''build'')
          (\<lambda>co ctx. Inr (Iterator (AsyncIterator [] None))) Map.empty emptyWorld)
     = Inl (TypeError (PropertyOfUndefined ''success''))
   \<and> fst (runBody (exampleEnv exampleParsedPlain True (Inr (Iterator (AsyncIterator [] None))))
          ''/ws'' ''/ws'' [''proj:build''] False emptyWorld)
     = Inl (TypeError (PropertyOfUndefined ''success''))
   \<and> fst (run (exampleEnv exampleParsedPlain True (Inr (Iterator (AsyncIterator [] None))))
          ''/ws'' ''/ws'' [''proj:build''] False emptyWorld)
     = 1"
proof -
  let ?i = "Inr (Iterator (AsyncIterator [] None)) :: error + executorResult"
  let ?E = "exampleEnv exampleParsedPlain True ?i"
  let ?G = "exampleEnv exampleParsedPlain False ?i"
  let ?tgt = "Value exampleBuild"
  let ?p = "parseRunOpts ?E ''/ws'' [''proj:build'']
              (calculateDefaultProjectName ?E ''/ws'' exampleWorkspace) emptyWorld"
  have f: "fst ?p = Inr exampleOpts"
    by (simp add: parse_fst parsedArgs_def exampleEnv_def exampleParsedPlain_def getProp_def
          element_def emptyWorld_def exampleOpts_def)
  then have p: "?p = (Inr exampleOpts, snd ?p)"
    by (simp add: prod_eq_iff)
  have ws: "readWorkspaceConfiguration ?E = Inr exampleWorkspace"
    by (simp add: exampleEnv_def)
  have v: "validateTargetAndConfiguration ?E exampleWorkspace exampleOpts = Inr ()"
    by (rule example_validate)
  have tg: "targetOf ?E exampleWorkspace exampleOpts = Inr ?tgt"
    by (rule example_targetOf)
  have xp: "executorParts ?E ?tgt = Inr (JStr ''@nrwl/web'', JStr ''build'')"
    by (rule example_executorParts)
  have re: "readExecutor ?E (JStr ''@nrwl/web'') (JStr ''build'') = Inr ((), \<lambda>co ctx. ?i)"
    by (simp add: exampleEnv_def)
  have co: "combineOptionsForExecutor ?E (heap (snd ?p) ! runOptions exampleOpts)
              (configuration exampleOpts) ?tgt ()
              (calculateDefaultProjectName ?E ''/ws'' exampleWorkspace) (relativeCwd ?E ''/ws'')
            = Inr (heap (snd ?p) ! runOptions exampleOpts)"
    by (simp add: exampleEnv_def)
  have h: "\<not> truthy (helpFlag exampleOpts)"
    by (simp add: exampleOpts_def)
  have n: "isNxExecutor ?E (JStr ''@nrwl/web'') (JStr ''build'')"
    "\<not> isNxExecutor ?G (JStr ''@nrwl/web'') (JStr ''build'')"
    "scheduleTarget ?G ''/ws''
       \<lparr>project = project exampleOpts, target = target exampleOpts,
        configuration = configuration exampleOpts, helpFlag = helpFlag exampleOpts,
        runOptions = Map.empty\<rparr> False = Inr (AsyncIterator [] None)"
    by (simp_all add: exampleEnv_def)
  have he: "handleErrors ?E = (\<lambda>v r. (case fst r of Inl e \<Rightarrow> 1 | Inr code \<Rightarrow> code, snd r))"
    by (simp add: exampleEnv_def)
  note a = empty_sequence_throws [where env = ?E
      and nm = "JStr ''@nrwl/web''" and ex = "JStr ''build''" and impl = "\<lambda>co ctx. ?i"
      and co = Map.empty and root = "''/ws''" and tgt = ?tgt and ws = exampleWorkspace
      and opts = exampleOpts and vb = False and w = emptyWorld and cwd = "''/ws''"
      and args = "[''proj:build'']" and ?w0.0 = emptyWorld and schema = "()"]
  note b = empty_sequence_throws [where env = ?G
      and nm = "JStr ''@nrwl/web''" and ex = "JStr ''build''" and impl = "\<lambda>co ctx. ?i"
      and co = Map.empty and root = "''/ws''" and tgt = ?tgt and ws = exampleWorkspace
      and opts = exampleOpts and vb = False and w = emptyWorld and cwd = "''/ws''"
      and args = "[''proj:build'']" and ?w0.0 = emptyWorld and schema = "()"]
  note c = empty_sequence_throws [where env = ?E
      and nm = "JStr ''@nrwl/web''" and ex = "JStr ''build''" and impl = "\<lambda>co ctx. ?i"
      and co = "heap (snd ?p) ! runOptions exampleOpts" and root = "''/ws''" and tgt = ?tgt
      and ws = exampleWorkspace and opts = exampleOpts and vb = False and w = "snd ?p"
      and cwd = "''/ws''" and args = "[''proj:build'']" and ?w0.0 = emptyWorld
      and schema = "()"]
  have 1: "fst (dispatch ?E ''/ws'' False exampleWorkspace exampleOpts ?tgt
          (JStr ''@nrwl/web'') (JStr ''build'') (\<lambda>co ctx. ?i) Map.empty emptyWorld)
     = Inl (TypeError (PropertyOfUndefined ''success''))"
    using a n by simp
  have 2: "fst (dispatch ?G ''/ws'' False exampleWorkspace
          exampleOpts ?tgt (JStr ''@nrwl/web'') (JStr ''build'') (\<lambda>co ctx. ?i) Map.empty emptyWorld)
     = Inl (TypeError (PropertyOfUndefined ''success''))"
    using b n by simp
  have 3: "fst (runBody ?E ''/ws'' ''/ws'' [''proj:build''] False emptyWorld)
             = Inl (TypeError (PropertyOfUndefined ''success''))
           \<and> fst (run ?E ''/ws'' ''/ws'' [''proj:build''] False emptyWorld) = 1"
    using c ws p v tg xp re co h n(1) by (simp add: he)
  from 1 2 3 show ?thesis by simp
qed

text \<open>
  C10. A \<^verbatim>\<open>configuration\<close> flag whose value is the empty string changes nothing: the
  parser ends with the same error, or with the same project and configuration, as on
  the options without the keys \<^verbatim>\<open>configuration\<close> and \<^verbatim>\<open>c\<close>. The same holds for a
  \<^verbatim>\<open>project\<close> flag whose value is the empty string and the options without the key
  \<^verbatim>\<open>project\<close>.
\<close>

theorem empty_flag_ignored:
  "(parsedArgs env args ''configuration'' = Some (JStr []) \<longrightarrow>
      parsedArgs env' args' = (parsedArgs env args)(''configuration'' := None, ''c'' := None) \<longrightarrow>
      projectAndConfiguration (fst (parseRunOpts env cwd args d w))
        = projectAndConfiguration (fst (parseRunOpts env' cwd' args' d w')))
   \<and> (parsedArgs env args ''project'' = Some (JStr []) \<longrightarrow>
      parsedArgs env' args' = (parsedArgs env args)(''project'' := None) \<longrightarrow>
      projectAndConfiguration (fst (parseRunOpts env cwd args d w))
        = projectAndConfiguration (fst (parseRunOpts env' cwd' args' d w')))"
proof -
  have a: "parsedArgs env args ''configuration'' = Some (JStr []) \<Longrightarrow>
      parsedArgs env' args' = (parsedArgs env args)(''configuration'' := None, ''c'' := None) \<Longrightarrow>
      projectAndConfiguration (fst (parseRunOpts env cwd args d w))
        = projectAndConfiguration (fst (parseRunOpts env' cwd' args' d w'))"
    by (rule parse_agree) (simp_all add: getProp_def)
  have b: "parsedArgs env args ''project'' = Some (JStr []) \<Longrightarrow>
      parsedArgs env' args' = (parsedArgs env args)(''project'' := None) \<Longrightarrow>
      projectAndConfiguration (fst (parseRunOpts env cwd args d w))
        = projectAndConfiguration (fst (parseRunOpts env' cwd' args' d w'))"
    by (rule parse_agree) (simp_all add: getProp_def)
  from a b show ?thesis by blast
qed

theorem empty_flag_ignored_witness:
  "parsedArgs (exampleEnv exampleParsedEmptyFlags True (Inl (External ''none'')))
       [''proj:build:dev'', ''--configuration='', ''--project=''] ''configuration'' = Some (JStr [])
   \<and> parsedArgs (exampleEnv exampleParsedEmptyFlags True (Inl (External ''none'')))
       [''proj:build:dev'', ''--configuration='', ''--project=''] ''project'' = Some (JStr [])
   \<and> projectAndConfiguration
        (fst (parseRunOpts (exampleEnv exampleParsedEmptyFlags True (Inl (External ''none'')))
               ''/ws'' [''proj:build:dev'', ''--configuration='', ''--project=''] None emptyWorld))
       = Inr (JStr ''proj'', JStr ''dev'')
   \<and> projectAndConfiguration
        (fst (parseRunOpts
               (exampleEnv (exampleParsedEmptyFlags(''configuration'' := None, ''c'' := None)) True
                  (Inl (External ''none'')))
               ''/ws'' [''proj:build:dev'', ''--project=''] None emptyWorld))
       = Inr (JStr ''proj'', JStr ''dev'')
   \<and> projectAndConfiguration
        (fst (parseRunOpts
               (exampleEnv (exampleParsedEmptyFlags(''project'' := None)) True
                  (Inl (External ''none'')))
               ''/ws'' [''proj:build:dev'', ''--configuration=''] None emptyWorld))
       = Inr (JStr ''proj'', JStr ''dev'')"
proof -
  let ?E = "exampleEnv exampleParsedEmptyFlags True (Inl (External ''none''))"
  let ?a = "[''proj:build:dev'', ''--configuration='', ''--project='']"
  let ?F = "exampleEnv (exampleParsedEmptyFlags(''configuration'' := None, ''c'' := None)) True
              (Inl (External ''none''))"
  let ?b = "[''proj:build:dev'', ''--project='']"
  let ?G = "exampleEnv (exampleParsedEmptyFlags(''project'' := None)) True (Inl (External ''none''))"
  let ?c = "[''proj:build:dev'', ''--configuration='']"
  have pa: "parsedArgs ?E ?a = exampleParsedEmptyFlags"
    "parsedArgs ?F ?b = exampleParsedEmptyFlags(''configuration'' := None, ''c'' := None)"
    "parsedArgs ?G ?c = exampleParsedEmptyFlags(''project'' := None)"
    by (simp_all add: parsedArgs_def exampleEnv_def)
  have h: "parsedArgs ?E ?a ''configuration'' = Some (JStr [])"
    "parsedArgs ?E ?a ''project'' = Some (JStr [])"
    by (simp_all add: parsedArgs_def exampleEnv_def exampleParsedEmptyFlags_def)
  have e: "parsedArgs ?F ?b = (parsedArgs ?E ?a)(''configuration'' := None, ''c'' := None)"
    "parsedArgs ?G ?c = (parsedArgs ?E ?a)(''project'' := None)"
    by (simp_all add: pa)
  have r: "projectAndConfiguration (fst (parseRunOpts ?E ''/ws'' ?a None emptyWorld))
             = Inr (JStr ''proj'', JStr ''dev'')"
    by (simp add: parse_projectAndConfiguration parsedArgs_def exampleEnv_def
          exampleParsedEmptyFlags_def getProp_def element_def)
  from empty_flag_ignored [where env = ?E and args = ?a and env' = ?F and args' = ?b
      and cwd = "''/ws''" and cwd' = "''/ws''" and d = None and w = emptyWorld and w' = emptyWorld]
    empty_flag_ignored [where env = ?E and args = ?a and env' = ?G and args' = ?c
      and cwd = "''/ws''" and cwd' = "''/ws''" and d = None and w = emptyWorld and w' = emptyWorld]
    h e r
  show ?thesis by simp
qed

end
